theory Spec2Isabelle
  imports Main
begin

section \<open>JavaScript values used by the chain manager\<close>

text \<open>
  The class \<open>Blockchain\<close> of \<open>blockchain.js\<close> is embedded below. Every method of
  the class returns a promise; a promise is modelled by its final outcome. \<open>Pending\<close>
  is a promise that is never settled: \<open>submitStar\<close> calls the verifier and awaits
  \<open>_addBlock\<close> inside an \<open>async\<close> executor with no \<open>try\<close>, so an exception of
  the verifier or a rejection of \<open>_addBlock\<close> there leaves the promise of
  \<open>submitStar\<close> neither resolved nor rejected.
\<close>

datatype js_error =
    Error string
  | TypeError
  | SyntaxError

datatype 'a promise =
    Resolved 'a
  | Rejected js_error
  | Pending

text \<open>
  A JavaScript number that holds an integer or \<open>NaN\<close>: \<open>None\<close> is \<open>NaN\<close>.
  Subtraction propagates \<open>NaN\<close> and every comparison with \<open>NaN\<close> is false. The
  numbers of \<open>submitStar\<close> are the clock in seconds (an integer below \<open>2^53\<close>) and the
  result of \<open>parseInt\<close>; where the latter is beyond \<open>2^53\<close> in size the double
  is rounded, which does not change the sign of the difference nor the outcome of
  the comparison with 300, so the unbounded integers decide the comparison as the doubles
  do.
\<close>

type_synonym js_number = "int option"

definition js_minus :: "js_number \<Rightarrow> js_number \<Rightarrow> js_number" where
  "js_minus a b = (case a of None \<Rightarrow> None | Some x \<Rightarrow> (case b of None \<Rightarrow> None | Some y \<Rightarrow> Some (x - y)))"

definition js_greater :: "js_number \<Rightarrow> js_number \<Rightarrow> bool" where
  "js_greater a b = (case a of None \<Rightarrow> False | Some x \<Rightarrow> (case b of None \<Rightarrow> False | Some y \<Rightarrow> x > y))"

subsection \<open>Number.prototype.toString and String.prototype.slice(0, -3)\<close>

text \<open>
  \<open>new Date().getTime()\<close> is the clock in milliseconds, here a natural number (a
  clock set after 1970). A time value of \<open>Date\<close> is below \<open>8.64 * 10^15\<close>, where
  \<open>toString\<close> writes all the decimal digits and no exponent.
\<close>

definition digit_char :: "nat \<Rightarrow> char" where
  "digit_char d = ''0123456789'' ! d"

fun toString :: "nat \<Rightarrow> string" where
  "toString n = (if n < 10 then [digit_char n] else toString (n div 10) @ [digit_char (n mod 10)])"

declare toString.simps [simp del]

text \<open>\<open>s.slice(0, -3)\<close>: the string without its last three characters, empty when it
  has three or fewer.\<close>

definition slice_0_m3 :: "string \<Rightarrow> string" where
  "slice_0_m3 s = take (length s - 3) s"

text \<open>\<open>new Date().getTime().toString().slice(0, -3)\<close> at clock reading \<open>ms\<close>.\<close>

definition time_string :: "nat \<Rightarrow> string" where
  "time_string ms = slice_0_m3 (toString ms)"

subsection \<open>String.prototype.split and parseInt\<close>

text \<open>\<open>s.split(sep)\<close> for a separator of one character: the fields between the
  separators, one field more than there are separators.\<close>

fun js_split :: "char \<Rightarrow> string \<Rightarrow> string list" where
  "js_split sep [] = [[]]"
| "js_split sep (c # cs) =
     (if c = sep then [] # js_split sep cs
      else (case js_split sep cs of
              [] \<Rightarrow> [[c]]
            | f # fs \<Rightarrow> (c # f) # fs))"

text \<open>\<open>a[i]\<close> on an array, for an integer \<open>i\<close>: \<open>undefined\<close> (here \<open>None\<close>)
  when \<open>i\<close> is negative or not below the length.\<close>

definition js_index :: "'a list \<Rightarrow> int \<Rightarrow> 'a option" where
  "js_index xs i = (if 0 \<le> i \<and> i < int (length xs) then Some (xs ! nat i) else None)"

text \<open>
  \<open>parseInt(string)\<close> with no radix, after ECMAScript: leading white space is
  dropped, one sign is read, the prefix \<open>0x\<close> or \<open>0X\<close> selects radix 16, and the
  longest run of digits of the radix is the value; with no digit the result is
  \<open>NaN\<close>. Characters are code units below 256, so of the white space of ECMAScript
  the tab, the line feed, the vertical tab, the form feed, the carriage return, the space
  and the no-break space are the ones a \<open>string\<close> can hold.
\<close>

definition is_white_space :: "char \<Rightarrow> bool" where
  "is_white_space c = (of_char c \<in> {9, 10, 11, 12, 13, 32, 160 :: nat})"

definition digit_value :: "char \<Rightarrow> nat option" where
  "digit_value c =
     (let k = (of_char c :: nat) in
      if 48 \<le> k \<and> k \<le> 57 then Some (k - 48)
      else if 97 \<le> k \<and> k \<le> 122 then Some (k - 87)
      else if 65 \<le> k \<and> k \<le> 90 then Some (k - 55)
      else None)"

definition is_digit :: "nat \<Rightarrow> char \<Rightarrow> bool" where
  "is_digit radix c = (case digit_value c of None \<Rightarrow> False | Some d \<Rightarrow> d < radix)"

definition digits_value :: "nat \<Rightarrow> string \<Rightarrow> nat" where
  "digits_value radix z = foldl (\<lambda>acc c. acc * radix + the (digit_value c)) 0 z"

definition parseInt :: "string \<Rightarrow> js_number" where
  "parseInt inputString =
     (let s1 = dropWhile is_white_space inputString;
          negative = (s1 \<noteq> [] \<and> hd s1 = CHR ''-'');
          s2 = (if s1 \<noteq> [] \<and> (hd s1 = CHR ''+'' \<or> hd s1 = CHR ''-'') then tl s1 else s1);
          hex = (length s2 \<ge> 2 \<and> (take 2 s2 = ''0x'' \<or> take 2 s2 = ''0X''));
          radix = (if hex then 16 else 10);
          s3 = (if hex then drop 2 s2 else s2);
          z = takeWhile (is_digit radix) s3
      in if z = [] then None
         else Some ((if negative then - 1 else 1) * int (digits_value radix z)))"

text \<open>\<open>parseInt(x)\<close> where \<open>x\<close> may be \<open>undefined\<close>: the argument is converted to
  the string \<open>undefined\<close>, which has no digit.\<close>

definition parseInt_opt :: "string option \<Rightarrow> js_number" where
  "parseInt_opt x = (case x of None \<Rightarrow> parseInt ''undefined'' | Some s \<Rightarrow> parseInt s)"

section \<open>Blocks\<close>

text \<open>
  The body of a block is the object handed to the constructor of \<open>Block\<close>:
  \<open>{ data: "Genesis Block" }\<close> in \<open>initializeChain\<close> and
  \<open>{ address, message, star }\<close> in \<open>submitStar\<close>. The star is the encoded payload
  of the client, a string that \<open>getStarsByWalletAddress\<close> decodes with \<open>JSON.parse\<close>.
\<close>

datatype body =
    Data string
  | Star string string string

text \<open>The fields \<open>_addBlock\<close> reads and writes. \<open>hash\<close> and \<open>previousBlockHash\<close> may
  be \<open>null\<close>; \<open>time\<close> is the string of decimal digits \<open>_addBlock\<close> stores.\<close>

record block =
  hash :: "string option"
  height :: int
  body :: body
  time :: string
  previousBlockHash :: "string option"

text \<open>
  Modelled from the spec: the class \<open>Block\<close> of \<open>block.js\<close>, which \<open>blockchain.js\<close>
  requires and which is not among the sources. \<open>new BlockClass.Block(data)\<close> is, in the
  words of the spec, "a partially-built block containing only its body": the hash is
  not set (\<open>null\<close>), and the height, the time and the link hold placeholders that
  \<open>_addBlock\<close> overwrites before it reads them.
\<close>

definition Block :: "body \<Rightarrow> block" where
  "Block data = \<lparr>hash = None, height = 0, body = data, time = [], previousBlockHash = None\<rparr>"

section \<open>The class Blockchain\<close>

text \<open>The two fields of the class, \<open>this.chain\<close> and \<open>this.height\<close>.\<close>

record blockchain =
  this_chain :: "block list"
  this_height :: int

text \<open>
  The methods take what the source takes from outside as arguments: \<open>SHA256\<close> (of
  \<open>crypto-js\<close>, with its \<open>toString()\<close>), \<open>stringify\<close> (\<open>JSON.stringify\<close> on a
  block), \<open>verify\<close> (\<open>bitcoinMessage.verify\<close>, which answers true or false, or throws
  on a signature or an address it cannot decode: \<open>Inr\<close> the answer, \<open>Inl\<close> what it
  throws), \<open>validate\<close> (the method of \<open>Block\<close>) and every reading of the clock in
  milliseconds. The object \<open>self\<close> is passed in and returned.
\<close>

definition getChainHeight :: "blockchain \<Rightarrow> int promise" where
  "getChainHeight self = Resolved (this_height self)"

text \<open>
  \<open>_addBlock(block)\<close>. Reading \<open>previousBlock.hash\<close> throws a \<open>TypeError\<close> when
  \<open>self.chain[self.height]\<close> is \<open>undefined\<close>; the \<open>catch\<close> rejects with it, before
  anything is written. The block is an object of its own in both callers (a
  \<open>new BlockClass.Block\<close>), so the blocks already in the chain are not touched.
\<close>

definition addBlock ::
  "(string \<Rightarrow> string) \<Rightarrow> (block \<Rightarrow> string) \<Rightarrow> nat \<Rightarrow> blockchain \<Rightarrow> block
     \<Rightarrow> block promise \<times> blockchain" where
  "addBlock SHA256 stringify ms self block =
     (case (if this_height self = - 1 then Some (block\<lparr>previousBlockHash := None\<rparr>)
            else (case js_index (this_chain self) (this_height self) of
                    None \<Rightarrow> None
                  | Some previousBlock \<Rightarrow> Some (block\<lparr>previousBlockHash := hash previousBlock\<rparr>))) of
        None \<Rightarrow> (Rejected TypeError, self)
      | Some block1 \<Rightarrow>
          (let block2 = block1\<lparr>time := time_string ms\<rparr>;
               block3 = block2\<lparr>height := this_height self + 1\<rparr>;
               block4 = block3\<lparr>hash := Some (SHA256 (stringify block3))\<rparr>
           in (Resolved block4,
               self\<lparr>this_chain := this_chain self @ [block4], this_height := height block4\<rparr>)))"

text \<open>\<open>initializeChain()\<close>: an \<open>async\<close> method, rejected when the awaited
  \<open>_addBlock\<close> is.\<close>

definition initializeChain ::
  "(string \<Rightarrow> string) \<Rightarrow> (block \<Rightarrow> string) \<Rightarrow> nat \<Rightarrow> blockchain
     \<Rightarrow> unit promise \<times> blockchain" where
  "initializeChain SHA256 stringify ms self =
     (if this_height self = - 1 then
        (case addBlock SHA256 stringify ms self (Block (Data ''Genesis Block'')) of
           (Resolved b, self') \<Rightarrow> (Resolved (), self')
         | (Rejected e, self') \<Rightarrow> (Rejected e, self')
         | (Pending, self') \<Rightarrow> (Pending, self'))
      else (Resolved (), self))"

text \<open>
  \<open>new Blockchain()\<close>. The constructor calls \<open>initializeChain\<close> and does not await it;
  \<open>_addBlock\<close> has no \<open>await\<close> in its body, so its executor and with it the push of
  the genesis block have run when the constructor returns.
\<close>

definition new_Blockchain :: "(string \<Rightarrow> string) \<Rightarrow> (block \<Rightarrow> string) \<Rightarrow> nat \<Rightarrow> blockchain" where
  "new_Blockchain SHA256 stringify ms =
     snd (initializeChain SHA256 stringify ms \<lparr>this_chain = [], this_height = - 1\<rparr>)"

definition requestMessageOwnershipVerification :: "nat \<Rightarrow> string \<Rightarrow> string promise" where
  "requestMessageOwnershipVerification ms address =
     Resolved (address @ '':'' @ time_string ms @ '':starRegistry'')"

text \<open>
  \<open>submitStar(address, message, signature, star)\<close>. \<open>ms\<close> is the clock read by
  \<open>submitStar\<close>, \<open>ms_add\<close> the clock read by \<open>_addBlock\<close> afterwards.
  Step 1 is \<open>messageTime\<close>, step 2 \<open>currentTime\<close>, and steps 4 to 6 (the
  verification of the signature, the new block and its append) are \<open>verify_and_add\<close>.
  The executor is \<open>async\<close> and has no \<open>try\<close>: when \<open>bitcoinMessage.verify\<close> throws,
  or the awaited \<open>_addBlock\<close> is rejected, neither \<open>resolve\<close> nor \<open>reject\<close> is
  called and the promise stays pending, with nothing written.
\<close>

definition messageTime :: "string \<Rightarrow> js_number" where
  "messageTime message = parseInt_opt (js_index (js_split (CHR '':'') message) 1)"

definition currentTime :: "nat \<Rightarrow> js_number" where
  "currentTime ms = parseInt (time_string ms)"

definition verify_and_add ::
  "(string \<Rightarrow> string) \<Rightarrow> (block \<Rightarrow> string) \<Rightarrow> (string \<Rightarrow> string \<Rightarrow> string \<Rightarrow> js_error + bool)
     \<Rightarrow> nat \<Rightarrow> blockchain \<Rightarrow> string \<Rightarrow> string \<Rightarrow> string \<Rightarrow> string
     \<Rightarrow> block promise \<times> blockchain" where
  "verify_and_add SHA256 stringify verify ms_add self address message signature star =
     (case verify message address signature of
        Inl thrown \<Rightarrow> (Pending, self)
      | Inr isVerified \<Rightarrow>
          if \<not> isVerified then
            (Rejected (Error ''Message verification failed.''), self)
          else
            (case addBlock SHA256 stringify ms_add self (Block (Star address message star)) of
               (Resolved newBlock, self') \<Rightarrow> (Resolved newBlock, self')
             | (Rejected e, self') \<Rightarrow> (Pending, self')
             | (Pending, self') \<Rightarrow> (Pending, self')))"

definition submitStar ::
  "(string \<Rightarrow> string) \<Rightarrow> (block \<Rightarrow> string) \<Rightarrow> (string \<Rightarrow> string \<Rightarrow> string \<Rightarrow> js_error + bool)
     \<Rightarrow> nat \<Rightarrow> nat \<Rightarrow> blockchain \<Rightarrow> string \<Rightarrow> string \<Rightarrow> string \<Rightarrow> string
     \<Rightarrow> block promise \<times> blockchain" where
  "submitStar SHA256 stringify verify ms ms_add self address message signature star =
     (let timeElapsed = js_minus (currentTime ms) (messageTime message);
          fiveMinutesInSeconds = Some (5 * 60)
      in if js_greater timeElapsed fiveMinutesInSeconds then
           (Rejected (Error ''Time elapsed is greater than 5 minutes.''), self)
         else verify_and_add SHA256 stringify verify ms_add self address message signature star)"

definition getBlockByHash :: "blockchain \<Rightarrow> string \<Rightarrow> block promise" where
  "getBlockByHash self h =
     (case List.find (\<lambda>block. hash block = Some h) (this_chain self) of
        Some block \<Rightarrow> Resolved block
      | None \<Rightarrow> Rejected (Error ''Block not found for the given hash.''))"

text \<open>\<open>getBlockByHeight(height)\<close> resolves with \<open>null\<close>, here \<open>None\<close>, when no
  block has the height.\<close>

definition getBlockByHeight :: "blockchain \<Rightarrow> int \<Rightarrow> block option promise" where
  "getBlockByHeight self h =
     (case js_index (filter (\<lambda>p. height p = h) (this_chain self)) 0 of
        Some block \<Rightarrow> Resolved (Some block)
      | None \<Rightarrow> Resolved None)"

text \<open>
  \<open>getStarsByWalletAddress(address)\<close>. \<open>JSON_parse\<close> is \<open>JSON.parse\<close>, which returns
  the decoded value or throws; the \<open>catch\<close> rejects with what it throws. A body
  \<open>{ data: ... }\<close> has no \<open>address\<close>, and \<open>undefined === address\<close> is false.
\<close>

fun getStars_loop ::
  "(string \<Rightarrow> js_error + 'v) \<Rightarrow> string \<Rightarrow> block list \<Rightarrow> 'v list \<Rightarrow> js_error + 'v list" where
  "getStars_loop JSON_parse address [] stars = Inr stars"
| "getStars_loop JSON_parse address (block # rest) stars =
     (case body block of
        Data d \<Rightarrow> getStars_loop JSON_parse address rest stars
      | Star a m s \<Rightarrow>
          (if a = address then
             (case JSON_parse s of
                Inl e \<Rightarrow> Inl e
              | Inr v \<Rightarrow> getStars_loop JSON_parse address rest (stars @ [v]))
           else getStars_loop JSON_parse address rest stars))"

definition getStarsByWalletAddress ::
  "(string \<Rightarrow> js_error + 'v) \<Rightarrow> blockchain \<Rightarrow> string \<Rightarrow> 'v list promise" where
  "getStarsByWalletAddress JSON_parse self address =
     (case getStars_loop JSON_parse address (this_chain self) [] of
        Inl e \<Rightarrow> Rejected e
      | Inr stars \<Rightarrow> Resolved stars)"

text \<open>\<open>validateChain()\<close>: the \<open>for\<close> loop over the indices, with the error log it
  has built so far.\<close>

definition invalid_block_msg :: "nat \<Rightarrow> string" where
  "invalid_block_msg i = ''Block at height '' @ toString i @ '' is invalid.''"

definition invalid_link_msg :: "nat \<Rightarrow> string" where
  "invalid_link_msg i = ''Block at height '' @ toString i @ '' has an invalid previousBlockHash.''"

function validateChain_loop :: "(block \<Rightarrow> bool) \<Rightarrow> block list \<Rightarrow> nat \<Rightarrow> string list \<Rightarrow> string list" where
  "validateChain_loop validate chain i errorLog =
     (if i < length chain then
        (let block = chain ! i;
             errorLog1 = (if \<not> validate block then errorLog @ [invalid_block_msg i] else errorLog);
             errorLog2 = (if i > 0 \<and> previousBlockHash block \<noteq> hash (chain ! (i - 1))
                          then errorLog1 @ [invalid_link_msg i] else errorLog1)
         in validateChain_loop validate chain (i + 1) errorLog2)
      else errorLog)"
  by pat_completeness auto
termination
  by (relation "measure (\<lambda>(validate, chain, i, errorLog). length chain - i)") auto

declare validateChain_loop.simps [simp del]

definition validateChain :: "(block \<Rightarrow> bool) \<Rightarrow> blockchain \<Rightarrow> string list promise" where
  "validateChain validate self = Resolved (validateChain_loop validate (this_chain self) 0 [])"

section \<open>Runs of the class and reference descriptions\<close>

text \<open>
  A run: \<open>new Blockchain()\<close> at clock \<open>ms0\<close>, then any list of calls of
  \<open>submitStar\<close>, each with its two clock readings and its four arguments.
  \<open>submit_all\<close> gives the outcomes of the calls in order and the object at the end.
\<close>

type_synonym submission = "nat \<times> nat \<times> string \<times> string \<times> string \<times> string"

fun submit_all ::
  "(string \<Rightarrow> string) \<Rightarrow> (block \<Rightarrow> string) \<Rightarrow> (string \<Rightarrow> string \<Rightarrow> string \<Rightarrow> js_error + bool)
     \<Rightarrow> blockchain \<Rightarrow> submission list \<Rightarrow> block promise list \<times> blockchain" where
  "submit_all SHA256 stringify verify self [] = ([], self)"
| "submit_all SHA256 stringify verify self ((ms, ms_add, address, message, signature, star) # calls) =
     (case submitStar SHA256 stringify verify ms ms_add self address message signature star of
        (outcome, self') \<Rightarrow>
          (case submit_all SHA256 stringify verify self' calls of
             (outcomes, self'') \<Rightarrow> (outcome # outcomes, self'')))"

definition run ::
  "(string \<Rightarrow> string) \<Rightarrow> (block \<Rightarrow> string) \<Rightarrow> (string \<Rightarrow> string \<Rightarrow> string \<Rightarrow> js_error + bool)
     \<Rightarrow> nat \<Rightarrow> submission list \<Rightarrow> block promise list \<times> blockchain" where
  "run SHA256 stringify verify ms0 calls =
     submit_all SHA256 stringify verify (new_Blockchain SHA256 stringify ms0) calls"

fun resolved :: "'a promise \<Rightarrow> bool" where
  "resolved (Resolved x) = True"
| "resolved (Rejected e) = False"
| "resolved Pending = False"

text \<open>The state the appends keep: the cached height is the last index, every block
  holds its index as height, the first block has no link and every other block links to
  the hash of the block before it.\<close>

definition linked :: "blockchain \<Rightarrow> bool" where
  "linked self =
     (this_height self = int (length (this_chain self)) - 1 \<and>
      (\<forall>i < length (this_chain self). height (this_chain self ! i) = int i) \<and>
      (\<forall>i < length (this_chain self).
         previousBlockHash (this_chain self ! i)
           = (if i = 0 then None else hash (this_chain self ! (i - 1)))))"

text \<open>What the spec asks of \<open>validateChain\<close> at index \<open>i\<close>: an entry when the block
  fails its own check, and a second, different entry when its link is not the hash of
  the block before.\<close>

definition problems_at :: "(block \<Rightarrow> bool) \<Rightarrow> block list \<Rightarrow> nat \<Rightarrow> string list" where
  "problems_at validate chain i =
     (if \<not> validate (chain ! i) then [invalid_block_msg i] else []) @
     (if 0 < i \<and> previousBlockHash (chain ! i) \<noteq> hash (chain ! (i - 1))
      then [invalid_link_msg i] else [])"

text \<open>What the spec asks of \<open>starsByAddress\<close>: the star payloads of the blocks whose
  body has the address, in chain order, and their decoding one after the other.\<close>

definition claimed_stars :: "string \<Rightarrow> block list \<Rightarrow> string list" where
  "claimed_stars address chain =
     concat (map (\<lambda>block. case body block of
                              Data d \<Rightarrow> []
                            | Star a m s \<Rightarrow> if a = address then [s] else []) chain)"

fun decode_all :: "(string \<Rightarrow> js_error + 'v) \<Rightarrow> string list \<Rightarrow> js_error + 'v list" where
  "decode_all JSON_parse [] = Inr []"
| "decode_all JSON_parse (s # ss) =
     (case JSON_parse s of
        Inl e \<Rightarrow> Inl e
      | Inr v \<Rightarrow> (case decode_all JSON_parse ss of Inl e \<Rightarrow> Inl e | Inr vs \<Rightarrow> Inr (v # vs)))"

text \<open>
  \<open>JSON.parse\<close> is a builtin. A JSON text is one value between white space (space, tab,
  line feed, carriage return), and a value begins with a brace, a bracket, a double quote,
  a minus sign, a digit, or the first letter of \<open>true\<close>, \<open>false\<close> or \<open>null\<close>. So a
  text with nothing but white space, or whose first other character is none of these,
  holds no value and \<open>JSON.parse\<close> throws a \<open>SyntaxError\<close> on it. That much is fixed
  here; the decoding of every other text is the parameter \<open>parse_value\<close>, which may
  throw as well.
\<close>

definition JSON_parse_text :: "(string \<Rightarrow> js_error + 'v) \<Rightarrow> string \<Rightarrow> js_error + 'v" where
  "JSON_parse_text parse_value text =
     (case dropWhile (\<lambda>c. of_char c \<in> {32, 9, 10, 13 :: nat}) text of
        [] \<Rightarrow> Inl SyntaxError
      | c # rest \<Rightarrow>
          if c \<in> set ''{[-0123456789tfn'' \<or> of_char c = (34 :: nat) then parse_value text
          else Inl SyntaxError)"

text \<open>
  Modelled from the spec: the method \<open>validate\<close> of the class \<open>Block\<close> of
  \<open>block.js\<close>, which is not among the sources. In the words of the spec it
  "recomputes its hash and compares it to the stored one", the hash being the digest
  over every other field of the block. It is used where a statement needs the check of
  the block itself; \<open>validateChain\<close> above takes the check as an argument.
\<close>

definition Block_validate :: "(string \<Rightarrow> string) \<Rightarrow> (block \<Rightarrow> string) \<Rightarrow> block \<Rightarrow> bool" where
  "Block_validate SHA256 stringify block =
     (hash block = Some (SHA256 (stringify (block\<lparr>hash := None\<rparr>))))"

text \<open>Every block of the chain holds the digest of its own serialization with the
  hash slot put back to \<open>null\<close>.\<close>

definition hashed :: "(string \<Rightarrow> string) \<Rightarrow> (block \<Rightarrow> string) \<Rightarrow> blockchain \<Rightarrow> bool" where
  "hashed SHA256 stringify self =
     list_all (\<lambda>b. hash b = Some (SHA256 (stringify (b\<lparr>hash := None\<rparr>)))) (this_chain self)"

section \<open>The clock string and parseInt\<close>

lemma digit_char_decimal: "d < 10 \<Longrightarrow> digit_char d \<in> set ''0123456789''"
proof -
  assume "d < 10"
  then have "d \<in> {0, 1, 2, 3, 4, 5, 6, 7, 8, 9}" by auto
  then show ?thesis by (auto simp: digit_char_def)
qed

lemma digit_value_digit_char: "d < 10 \<Longrightarrow> digit_value (digit_char d) = Some d"
proof -
  assume "d < 10"
  then have "d \<in> {0, 1, 2, 3, 4, 5, 6, 7, 8, 9}" by auto
  then show ?thesis by (auto simp: digit_char_def digit_value_def)
qed

lemma toString_step: "10 \<le> n \<Longrightarrow> toString n = toString (n div 10) @ [digit_char (n mod 10)]"
  by (simp add: toString.simps [of n])

lemma toString_decimal: "c \<in> set (toString n) \<Longrightarrow> c \<in> set ''0123456789''"
proof (induction n arbitrary: c rule: toString.induct)
  case (1 n)
  show ?case
  proof (cases "n < 10")
    case True
    with "1.prems" show ?thesis
      using digit_char_decimal [of n] by (simp add: toString.simps [of n])
  next
    case False
    then have "toString n = toString (n div 10) @ [digit_char (n mod 10)]"
      by (simp add: toString_step)
    with "1.prems" have "c \<in> set (toString (n div 10)) \<or> c = digit_char (n mod 10)"
      by auto
    moreover have "digit_char (n mod 10) \<in> set ''0123456789''"
      by (rule digit_char_decimal) simp
    ultimately show ?thesis
      using "1.IH" [OF False] by blast
  qed
qed

lemma toString_not_Nil: "toString n \<noteq> []"
  by (simp add: toString.simps [of n])

lemma take_toString_step:
  assumes "10 \<le> n"
  shows "take (length (toString n) - Suc k) (toString n)
           = take (length (toString (n div 10)) - k) (toString (n div 10))"
  using assms by (simp add: toString_step [of n])

lemma time_string_seconds:
  assumes "1000 \<le> ms"
  shows "time_string ms = toString (ms div 1000)"
proof -
  have a: "10 \<le> ms" and b: "10 \<le> ms div 10" and c: "10 \<le> ms div 10 div 10"
    using assms by auto
  have d: "ms div 10 div 10 div 10 = ms div 1000"
    by (simp add: div_mult2_eq [symmetric])
  have "take (length (toString ms) - 3) (toString ms)
          = take (length (toString (ms div 10)) - 2) (toString (ms div 10))"
    using take_toString_step [OF a, of 2] by (simp add: numeral_3_eq_3 numeral_2_eq_2)
  also have "\<dots> = take (length (toString (ms div 10 div 10)) - 1) (toString (ms div 10 div 10))"
    using take_toString_step [OF b, of 1] by (simp add: numeral_2_eq_2)
  also have "\<dots> = take (length (toString (ms div 10 div 10 div 10)) - 0) (toString (ms div 10 div 10 div 10))"
    using take_toString_step [OF c, of 0] by simp
  finally show ?thesis
    by (simp add: time_string_def slice_0_m3_def d)
qed

lemma digits_value_snoc:
  "digits_value r (z @ [c]) = digits_value r z * r + the (digit_value c)"
  by (simp add: digits_value_def)

lemma digits_value_toString: "digits_value 10 (toString n) = n"
proof (induction n rule: toString.induct)
  case (1 n)
  show ?case
  proof (cases "n < 10")
    case True
    then show ?thesis
      by (simp add: toString.simps [of n] digits_value_def digit_value_digit_char)
  next
    case False
    then show ?thesis
      using "1.IH" [OF False]
      by (simp add: toString_step digits_value_snoc digit_value_digit_char)
  qed
qed

lemma decimal_facts:
  assumes "c \<in> set ''0123456789''"
  shows "\<not> is_white_space c" and "c \<noteq> CHR ''+''" and "c \<noteq> CHR ''-''"
    and "c \<noteq> CHR ''x''" and "c \<noteq> CHR ''X''" and "is_digit 10 c"
  using assms by (auto simp: is_white_space_def is_digit_def digit_value_def)

lemma parseInt_decimal:
  assumes "s \<noteq> []" and "\<forall>c \<in> set s. c \<in> set ''0123456789''"
  shows "parseInt s = Some (int (digits_value 10 s))"
proof -
  obtain c cs where s: "s = c # cs" using assms(1) by (cases s) auto
  have c: "c \<in> set ''0123456789''" using assms(2) s by simp
  have ws: "dropWhile is_white_space s = s"
    using decimal_facts(1) [OF c] s by simp
  have nothex: "\<not> (length s \<ge> 2 \<and> (take 2 s = ''0x'' \<or> take 2 s = ''0X''))"
  proof (cases cs)
    case Nil
    then show ?thesis using s by simp
  next
    case (Cons d ds)
    then have "d \<in> set ''0123456789''" using assms(2) s by simp
    then have "d \<noteq> CHR ''x''" "d \<noteq> CHR ''X''" using decimal_facts by blast+
    then show ?thesis using s Cons by simp
  qed
  have tw: "takeWhile (is_digit 10) s = s"
    using assms(2) decimal_facts(6) by (simp add: takeWhile_eq_all_conv)
  have hd: "hd s \<noteq> CHR ''+''" "hd s \<noteq> CHR ''-''"
    using s decimal_facts(2,3) [OF c] by simp_all
  have nothex': "(2 \<le> length s \<and> (take 2 s = ''0x'' \<or> take 2 s = ''0X'')) = False"
    using nothex by simp
  show ?thesis
    unfolding parseInt_def Let_def ws
    by (simp only: hd nothex' tw assms(1) if_False if_True simp_thms mult_1 of_nat_id)
qed

lemma parseInt_toString: "parseInt (toString n) = Some (int n)"
  using parseInt_decimal [of "toString n"] toString_not_Nil toString_decimal
  by (simp add: digits_value_toString)

lemma currentTime_seconds: "1000 \<le> ms \<Longrightarrow> currentTime ms = Some (int (ms div 1000))"
  by (simp add: currentTime_def time_string_seconds parseInt_toString)


lemma js_split_field: "sep \<notin> set a \<Longrightarrow> js_split sep (a @ sep # rest) = a # js_split sep rest"
  by (induction a) auto

lemma messageTime_issued:
  assumes "CHR '':'' \<notin> set address" and "1000 \<le> ms0"
    and "requestMessageOwnershipVerification ms0 address = Resolved message"
  shows "messageTime message = Some (int (ms0 div 1000))"
proof -
  have message: "message = address @ '':'' @ time_string ms0 @ '':starRegistry''"
    using assms(3) by (simp add: requestMessageOwnershipVerification_def)
  let ?ts = "time_string ms0"
  have ts: "?ts = toString (ms0 div 1000)" using assms(2) by (rule time_string_seconds)
  have "CHR '':'' \<notin> set ''0123456789''" by simp
  then have nocolon: "CHR '':'' \<notin> set ?ts" using toString_decimal ts by metis
  have "js_split (CHR '':'') (address @ CHR '':'' # (?ts @ CHR '':'' # ''starRegistry''))
          = address # ?ts # js_split (CHR '':'') ''starRegistry''"
    using assms(1) nocolon by (simp add: js_split_field)
  then have "js_index (js_split (CHR '':'') (address @ '':'' @ ?ts @ '':starRegistry'')) 1 = Some ?ts"
    by (simp add: js_index_def)
  then show ?thesis
    unfolding message by (simp add: messageTime_def parseInt_opt_def ts parseInt_toString)
qed

lemma verify_and_add_not_expired:
  "fst (verify_and_add SHA256 stringify verify ms_add self address message signature star)
     \<noteq> Rejected (Error ''Time elapsed is greater than 5 minutes.'')"
  by (auto simp: verify_and_add_def split: sum.splits prod.splits promise.splits)

lemma submitStar_fresh:
  assumes "currentTime ms = Some c" and "messageTime message = Some t" and "c - t \<le> 300"
  shows "submitStar SHA256 stringify verify ms ms_add self address message signature star
           = verify_and_add SHA256 stringify verify ms_add self address message signature star"
  using assms by (simp add: submitStar_def js_minus_def js_greater_def)

lemma submitStar_expired:
  assumes "currentTime ms = Some c" and "messageTime message = Some t" and "c - t > 300"
  shows "submitStar SHA256 stringify verify ms ms_add self address message signature star
           = (Rejected (Error ''Time elapsed is greater than 5 minutes.''), self)"
  using assms by (simp add: submitStar_def js_minus_def js_greater_def)

lemma addBlock_general:
  "addBlock SHA256 stringify ms self block = (r, self') \<Longrightarrow>
     (r = Rejected TypeError \<and> self' = self) \<or>
     (\<exists>b. r = Resolved b \<and>
        self' = self\<lparr>this_chain := this_chain self @ [b], this_height := this_height self + 1\<rparr> \<and>
        hash b = Some (SHA256 (stringify (b\<lparr>hash := hash block\<rparr>))) \<and>
        body b = body block \<and> height b = this_height self + 1 \<and> time b = time_string ms)"
  by (auto simp: addBlock_def Let_def split: option.splits if_splits)

lemma linked_empty: "linked \<lparr>this_chain = [], this_height = - 1\<rparr>"
  by (simp add: linked_def)

lemma addBlock_linked:
  assumes "linked self"
  shows "\<exists>b. addBlock SHA256 stringify ms self block
             = (Resolved b, self\<lparr>this_chain := this_chain self @ [b], this_height := this_height self + 1\<rparr>)
           \<and> b = block\<lparr>previousBlockHash := (if this_chain self = [] then None else hash (last (this_chain self))),
                       time := time_string ms,
                       height := int (length (this_chain self)),
                       hash := Some (SHA256 (stringify
                          (block\<lparr>previousBlockHash := (if this_chain self = [] then None else hash (last (this_chain self))),
                                 time := time_string ms,
                                 height := int (length (this_chain self))\<rparr>)))\<rparr>"
proof (cases "this_chain self = []")
  case True
  then have "this_height self = - 1" using assms by (simp add: linked_def)
  then show ?thesis using True by (simp add: addBlock_def Let_def)
next
  case False
  then have h: "this_height self = int (length (this_chain self)) - 1" and pos: "0 < length (this_chain self)"
    using assms by (simp_all add: linked_def)
  have idx: "js_index (this_chain self) (int (length (this_chain self)) - 1) = Some (last (this_chain self))"
    using pos False by (simp add: js_index_def last_conv_nth nat_diff_distrib')
  have ne: "int (length (this_chain self)) - 1 \<noteq> - 1" using pos by simp
  show ?thesis using False by (simp add: addBlock_def Let_def h idx ne)
qed

lemma linked_push:
  assumes "linked self"
    and "height b = int (length (this_chain self))"
    and "previousBlockHash b = (if this_chain self = [] then None else hash (last (this_chain self)))"
  shows "linked (self\<lparr>this_chain := this_chain self @ [b], this_height := this_height self + 1\<rparr>)"
proof -
  let ?c = "this_chain self"
  have h: "this_height self = int (length ?c) - 1"
    and hs: "\<And>i. i < length ?c \<Longrightarrow> height (?c ! i) = int i"
    and ls: "\<And>i. i < length ?c \<Longrightarrow> previousBlockHash (?c ! i) = (if i = 0 then None else hash (?c ! (i - 1)))"
    using assms(1) by (simp_all add: linked_def)
  have heights: "height ((?c @ [b]) ! i) = int i" if "i < length (?c @ [b])" for i
    using that hs assms(2) by (cases "i < length ?c") (simp_all add: nth_append)
  have links: "previousBlockHash ((?c @ [b]) ! i) = (if i = 0 then None else hash ((?c @ [b]) ! (i - 1)))"
    if "i < length (?c @ [b])" for i
  proof (cases "i < length ?c")
    case True
    then have "i - 1 < length ?c" by simp
    then show ?thesis using ls [OF True] True by (simp add: nth_append)
  next
    case False
    then have i: "i = length ?c" using that by simp
    show ?thesis
    proof (cases "?c = []")
      case True
      then show ?thesis using i assms(3) by simp
    next
      case False
      then show ?thesis using i assms(3) by (simp add: nth_append last_conv_nth)
    qed
  qed
  show ?thesis
    unfolding linked_def using h heights links by simp
qed

lemma addBlock_keeps_linked:
  assumes "linked self"
  shows "linked (snd (addBlock SHA256 stringify ms self block))"
proof -
  obtain b where b: "addBlock SHA256 stringify ms self block
             = (Resolved b, self\<lparr>this_chain := this_chain self @ [b], this_height := this_height self + 1\<rparr>)"
    and hb: "height b = int (length (this_chain self))"
    and pb: "previousBlockHash b = (if this_chain self = [] then None else hash (last (this_chain self)))"
    using addBlock_linked [OF assms, of SHA256 stringify ms block] by auto
  show ?thesis using linked_push [OF assms hb pb] b by simp
qed

lemma linked_new_Blockchain: "linked (new_Blockchain SHA256 stringify ms0)"
proof -
  let ?e = "\<lparr>this_chain = [], this_height = - 1\<rparr>"
  obtain r s where a: "addBlock SHA256 stringify ms0 ?e (Block (Data ''Genesis Block'')) = (r, s)"
    by (cases "addBlock SHA256 stringify ms0 ?e (Block (Data ''Genesis Block''))")
  then have "linked s"
    using addBlock_keeps_linked [OF linked_empty, of SHA256 stringify ms0 "Block (Data ''Genesis Block'')"]
    by simp
  then show ?thesis
    using a by (simp add: new_Blockchain_def initializeChain_def split: promise.splits)
qed

lemma verify_and_add_keeps_linked:
  assumes "linked self"
  shows "linked (snd (verify_and_add SHA256 stringify verify ms_add self address message signature star))"
proof (cases "verify message address signature = Inr True")
  case False
  then show ?thesis using assms by (auto simp: verify_and_add_def split: sum.splits)
next
  case True
  obtain r s where a: "addBlock SHA256 stringify ms_add self (Block (Star address message star)) = (r, s)"
    by (cases "addBlock SHA256 stringify ms_add self (Block (Star address message star))")
  then have "linked s"
    using addBlock_keeps_linked [OF assms, of SHA256 stringify ms_add "Block (Star address message star)"]
    by simp
  then show ?thesis
    using a True by (simp add: verify_and_add_def split: promise.splits)
qed

lemma submitStar_keeps_linked:
  assumes "linked self"
  shows "linked (snd (submitStar SHA256 stringify verify ms ms_add self address message signature star))"
  using assms verify_and_add_keeps_linked [OF assms]
  by (simp add: submitStar_def Let_def)

lemma submit_all_step:
  "submit_all SHA256 stringify verify self ((ms, ms_add, address, message, signature, star) # calls) =
     (fst (submitStar SHA256 stringify verify ms ms_add self address message signature star)
        # fst (submit_all SHA256 stringify verify
                 (snd (submitStar SHA256 stringify verify ms ms_add self address message signature star)) calls),
      snd (submit_all SHA256 stringify verify
             (snd (submitStar SHA256 stringify verify ms ms_add self address message signature star)) calls))"
  by (simp split: prod.splits)

lemma submit_all_keeps_linked:
  "linked self \<Longrightarrow> linked (snd (submit_all SHA256 stringify verify self calls))"
proof (induction calls arbitrary: self)
  case Nil
  then show ?case by simp
next
  case (Cons call calls)
  obtain ms ms_add address message signature star
    where call: "call = (ms, ms_add, address, message, signature, star)"
    by (cases call) auto
  let ?step = "submitStar SHA256 stringify verify ms ms_add self address message signature star"
  have "linked (snd ?step)" using Cons.prems by (rule submitStar_keeps_linked)
  then have "linked (snd (submit_all SHA256 stringify verify (snd ?step) calls))"
    by (rule Cons.IH)
  then show ?case
    by (simp only: call submit_all_step snd_conv)
qed

lemma run_linked: "linked (snd (run SHA256 stringify verify ms0 calls))"
  unfolding run_def by (rule submit_all_keeps_linked) (rule linked_new_Blockchain)

section \<open>The freshness window of submitStar\<close>

lemmas eval_defs = messageTime_def parseInt_opt_def js_index_def parseInt_def is_white_space_def
  is_digit_def digit_value_def digits_value_def

text \<open>
  C3. In every call of \<open>submitStar\<close> the freshness check is a strict window of 300
  seconds on the clock in seconds minus the time embedded in the message: when the
  difference is above 300 the call is rejected with the message of the expired
  challenge and the object is returned as it was, so no block is created; when the
  difference is exactly 300 the check passes and the call goes on with the verification
  of the signature.
\<close>

theorem submitStar_freshness_window:
  assumes "1000 \<le> ms" and "messageTime message = Some t"
  shows "(300 < int (ms div 1000) - t \<longrightarrow>
            submitStar SHA256 stringify verify ms ms_add self address message signature star
              = (Rejected (Error ''Time elapsed is greater than 5 minutes.''), self))
       \<and> (int (ms div 1000) - t = 300 \<longrightarrow>
            submitStar SHA256 stringify verify ms ms_add self address message signature star
              = verify_and_add SHA256 stringify verify ms_add self address message signature star
          \<and> fst (submitStar SHA256 stringify verify ms ms_add self address message signature star)
              \<noteq> Rejected (Error ''Time elapsed is greater than 5 minutes.''))"
proof (intro conjI impI)
  have now: "currentTime ms = Some (int (ms div 1000))"
    using assms(1) by (rule currentTime_seconds)
  {
    assume "300 < int (ms div 1000) - t"
    then show "submitStar SHA256 stringify verify ms ms_add self address message signature star
                 = (Rejected (Error ''Time elapsed is greater than 5 minutes.''), self)"
      using now assms(2) by (rule submitStar_expired [rotated 2])
  }
  {
    assume "int (ms div 1000) - t = 300"
    then have le: "int (ms div 1000) - t \<le> 300" by simp
    show eq: "submitStar SHA256 stringify verify ms ms_add self address message signature star
                = verify_and_add SHA256 stringify verify ms_add self address message signature star"
      using now assms(2) le by (rule submitStar_fresh)
    show "fst (submitStar SHA256 stringify verify ms ms_add self address message signature star)
            \<noteq> Rejected (Error ''Time elapsed is greater than 5 minutes.'')"
      unfolding eq by (rule verify_and_add_not_expired)
  }
qed

text \<open>At 301 seconds the call is rejected as expired; at 300 seconds it reaches the
  verifier, which here rejects.\<close>

theorem submitStar_freshness_window_witness:
  "submitStar (\<lambda>s. s) time (\<lambda>m a s. Inr False) 1700000301000 1700000301000
       \<lparr>this_chain = [], this_height = - 1\<rparr> ''addr'' ''addr:1700000000:starRegistry'' ''sig'' ''star''
     = (Rejected (Error ''Time elapsed is greater than 5 minutes.''), \<lparr>this_chain = [], this_height = - 1\<rparr>)
   \<and> submitStar (\<lambda>s. s) time (\<lambda>m a s. Inr False) 1700000300999 1700000300999
       \<lparr>this_chain = [], this_height = - 1\<rparr> ''addr'' ''addr:1700000000:starRegistry'' ''sig'' ''star''
     = (Rejected (Error ''Message verification failed.''), \<lparr>this_chain = [], this_height = - 1\<rparr>)"
proof -
  have t: "messageTime ''addr:1700000000:starRegistry'' = Some 1700000000"
    by (simp add: eval_defs)
  have a: "(1000::nat) \<le> 1700000301000" and b: "(1000::nat) \<le> 1700000300999" by simp_all
  show ?thesis
    using submitStar_freshness_window [OF a t, of "\<lambda>s. s" time "\<lambda>m a s. Inr False" 1700000301000
        "\<lparr>this_chain = [], this_height = - 1\<rparr>" "''addr''" "''sig''" "''star''"]
      submitStar_freshness_window [OF b t, of "\<lambda>s. s" time "\<lambda>m a s. Inr False" 1700000300999
        "\<lparr>this_chain = [], this_height = - 1\<rparr>" "''addr''" "''sig''" "''star''"]
    by (simp add: verify_and_add_def)
qed

text \<open>
  C10. When the time embedded in the message is later than the clock, the elapsed time is
  negative, the freshness check passes and the call goes on with the verification of the
  signature: a challenge dated in the future is never rejected as expired.
\<close>

theorem submitStar_future_timestamp:
  assumes "1000 \<le> ms" and "messageTime message = Some t" and "int (ms div 1000) < t"
  shows "(\<exists>d. js_minus (currentTime ms) (messageTime message) = Some d \<and> d < 0)
       \<and> submitStar SHA256 stringify verify ms ms_add self address message signature star
           = verify_and_add SHA256 stringify verify ms_add self address message signature star
       \<and> fst (submitStar SHA256 stringify verify ms ms_add self address message signature star)
           \<noteq> Rejected (Error ''Time elapsed is greater than 5 minutes.'')"
proof -
  have now: "currentTime ms = Some (int (ms div 1000))"
    using assms(1) by (rule currentTime_seconds)
  have neg: "js_minus (currentTime ms) (messageTime message) = Some (int (ms div 1000) - t)"
    by (simp add: now assms(2) js_minus_def)
  have le: "int (ms div 1000) - t \<le> 300" using assms(3) by simp
  have eq: "submitStar SHA256 stringify verify ms ms_add self address message signature star
              = verify_and_add SHA256 stringify verify ms_add self address message signature star"
    using now assms(2) le by (rule submitStar_fresh)
  have "fst (submitStar SHA256 stringify verify ms ms_add self address message signature star)
          \<noteq> Rejected (Error ''Time elapsed is greater than 5 minutes.'')"
    unfolding eq by (rule verify_and_add_not_expired)
  then show ?thesis using neg eq assms(3) by simp
qed

theorem submitStar_future_timestamp_witness:
  "submitStar (\<lambda>s. s) time (\<lambda>m a s. Inr False) 1700000000000 1700000000000
       \<lparr>this_chain = [], this_height = - 1\<rparr> ''addr'' ''addr:1700000777:starRegistry'' ''sig'' ''star''
     = (Rejected (Error ''Message verification failed.''), \<lparr>this_chain = [], this_height = - 1\<rparr>)"
proof -
  have t: "messageTime ''addr:1700000777:starRegistry'' = Some 1700000777"
    by (simp add: eval_defs)
  have a: "(1000::nat) \<le> 1700000000000" by simp
  have c: "int (1700000000000 div 1000) < 1700000777" by simp
  show ?thesis
    using submitStar_future_timestamp [OF a t c, of "\<lambda>s. s" time "\<lambda>m a s. Inr False" 1700000000000
        "\<lparr>this_chain = [], this_height = - 1\<rparr>" "''addr''" "''sig''" "''star''"]
    by (simp add: verify_and_add_def)
qed

section \<open>Failing and malformed submissions\<close>

lemmas clock_defs = currentTime_def time_string_def slice_0_m3_def toString.simps digit_char_def

lemma verify_and_add_rejected:
  assumes "fst (verify_and_add SHA256 stringify verify ms_add self address message signature star) = Rejected e"
  shows "e = Error ''Message verification failed.'' \<and> verify message address signature = Inr False"
  using assms by (auto simp: verify_and_add_def split: sum.splits if_splits prod.splits promise.splits)

lemma verify_and_add_not_resolved:
  assumes "\<not> resolved (fst (verify_and_add SHA256 stringify verify ms_add self address message signature star))"
  shows "snd (verify_and_add SHA256 stringify verify ms_add self address message signature star) = self"
proof (cases "verify message address signature = Inr True")
  case False
  then show ?thesis by (auto simp: verify_and_add_def split: sum.splits)
next
  case True
  obtain r s where a: "addBlock SHA256 stringify ms_add self (Block (Star address message star)) = (r, s)"
    by (cases "addBlock SHA256 stringify ms_add self (Block (Star address message star))")
  from addBlock_general [OF a] assms True a show ?thesis
    by (auto simp: verify_and_add_def)
qed

lemma submitStar_not_resolved:
  assumes "\<not> resolved (fst (submitStar SHA256 stringify verify ms ms_add self address message signature star))"
  shows "snd (submitStar SHA256 stringify verify ms ms_add self address message signature star) = self"
proof (cases "js_greater (js_minus (currentTime ms) (messageTime message)) (Some (5 * 60))")
  case True
  then show ?thesis by (simp add: submitStar_def)
next
  case False
  then have eq: "submitStar SHA256 stringify verify ms ms_add self address message signature star
               = verify_and_add SHA256 stringify verify ms_add self address message signature star"
    by (simp add: submitStar_def)
  show ?thesis using assms unfolding eq by (rule verify_and_add_not_resolved)
qed

lemma submitStar_rejected:
  assumes "fst (submitStar SHA256 stringify verify ms ms_add self address message signature star) = Rejected e"
  shows "e = Error ''Time elapsed is greater than 5 minutes.'' \<or> e = Error ''Message verification failed.''"
proof (cases "js_greater (js_minus (currentTime ms) (messageTime message)) (Some (5 * 60))")
  case True
  then show ?thesis using assms by (simp add: submitStar_def)
next
  case False
  then have eq: "submitStar SHA256 stringify verify ms ms_add self address message signature star
               = verify_and_add SHA256 stringify verify ms_add self address message signature star"
    by (simp add: submitStar_def)
  have "e = Error ''Message verification failed.'' \<and> verify message address signature = Inr False"
    using assms unfolding eq by (rule verify_and_add_rejected)
  then show ?thesis by simp
qed

text \<open>
  C4 asks that a message with no time in its second field fails with a parsing error. The
  source has no such error. Here the message has no colon at all, the verifier accepts,
  and the call does not fail: it resolves and the chain holds a second block.
\<close>

theorem submitStar_malformed_counterexample:
  "messageTime ''addr-1700000000-starRegistry'' = None
   \<and> resolved (fst (submitStar (\<lambda>s. s) (\<lambda>block. time block) (\<lambda>m a s. Inr True) 1700000000000 1700000000000
        (new_Blockchain (\<lambda>s. s) (\<lambda>block. time block) 1699999999000)
        ''addr'' ''addr-1700000000-starRegistry'' ''sig'' ''star''))
   \<and> length (this_chain (snd (submitStar (\<lambda>s. s) (\<lambda>block. time block) (\<lambda>m a s. Inr True) 1700000000000 1700000000000
        (new_Blockchain (\<lambda>s. s) (\<lambda>block. time block) 1699999999000)
        ''addr'' ''addr-1700000000-starRegistry'' ''sig'' ''star''))) = 2"
  by (simp add: eval_defs clock_defs submitStar_def verify_and_add_def addBlock_def Block_def
      new_Blockchain_def initializeChain_def js_minus_def js_greater_def Let_def)

text \<open>
  C4, as the source has it. \<open>submitStar\<close> has no parsing error. When the second field
  of the message holds no number (or there is no second field), a call that is rejected is
  rejected with one of the two errors the method has, the one of the expired challenge or
  the one of the verifier, and the object is returned as it was.
\<close>

theorem submitStar_no_parsing_error:
  assumes "messageTime message = None"
  shows "\<forall>e. fst (submitStar SHA256 stringify verify ms ms_add self address message signature star) = Rejected e
            \<longrightarrow> (e = Error ''Time elapsed is greater than 5 minutes.''
                 \<or> e = Error ''Message verification failed.'')
               \<and> snd (submitStar SHA256 stringify verify ms ms_add self address message signature star) = self"
proof (intro allI impI conjI)
  fix e
  assume r: "fst (submitStar SHA256 stringify verify ms ms_add self address message signature star) = Rejected e"
  show "e = Error ''Time elapsed is greater than 5 minutes.'' \<or> e = Error ''Message verification failed.''"
    using r by (rule submitStar_rejected)
  have "\<not> resolved (fst (submitStar SHA256 stringify verify ms ms_add self address message signature star))"
    using r by simp
  then show "snd (submitStar SHA256 stringify verify ms ms_add self address message signature star) = self"
    by (rule submitStar_not_resolved)
qed

text \<open>A message with no colon and a signature the verifier refuses: the call is rejected
  with the error of the verifier and the chain, which holds the genesis block, is as it
  was.\<close>

theorem submitStar_no_parsing_error_witness:
  "messageTime ''addr-1700000000-starRegistry'' = None
   \<and> fst (submitStar (\<lambda>s. s) (\<lambda>block. time block) (\<lambda>m a s. Inr False) 1700000000000 1700000000000
        (new_Blockchain (\<lambda>s. s) (\<lambda>block. time block) 1699999999000)
        ''addr'' ''addr-1700000000-starRegistry'' ''sig'' ''star'')
     = Rejected (Error ''Message verification failed.'')
   \<and> snd (submitStar (\<lambda>s. s) (\<lambda>block. time block) (\<lambda>m a s. Inr False) 1700000000000 1700000000000
        (new_Blockchain (\<lambda>s. s) (\<lambda>block. time block) 1699999999000)
        ''addr'' ''addr-1700000000-starRegistry'' ''sig'' ''star'')
     = new_Blockchain (\<lambda>s. s) (\<lambda>block. time block) 1699999999000"
proof -
  let ?new = "new_Blockchain (\<lambda>s. s) (\<lambda>block. time block) 1699999999000"
  let ?call = "submitStar (\<lambda>s. s) (\<lambda>block. time block) (\<lambda>m a s. Inr False) 1700000000000 1700000000000
        ?new ''addr'' ''addr-1700000000-starRegistry'' ''sig'' ''star''"
  have t: "messageTime ''addr-1700000000-starRegistry'' = None"
    by (simp add: eval_defs)
  have r: "fst ?call = Rejected (Error ''Message verification failed.'')"
    by (simp add: submitStar_def t js_minus_def js_greater_def verify_and_add_def split: option.splits)
  have "\<forall>e. fst ?call = Rejected e
            \<longrightarrow> (e = Error ''Time elapsed is greater than 5 minutes.''
                 \<or> e = Error ''Message verification failed.'')
               \<and> snd ?call = ?new"
    using t by (rule submitStar_no_parsing_error)
  then have "fst ?call = Rejected (Error ''Message verification failed.'')
            \<longrightarrow> (Error ''Message verification failed.'' = Error ''Time elapsed is greater than 5 minutes.''
                 \<or> Error ''Message verification failed.'' = Error ''Message verification failed.'')
               \<and> snd ?call = ?new"
    by (rule spec)
  then have "snd ?call = ?new" using r by blast
  then show ?thesis using t r by blast
qed

text \<open>
  C5. A call of \<open>submitStar\<close> that fails leaves the chain as it was. A rejection is
  either the one of the expired challenge or the one of the verifier, and in both the
  object is returned unchanged; a challenge whose embedded time is 301 seconds or more
  behind the clock is rejected as expired; a signature the verifier refuses is rejected.
  The same holds for every call that does not resolve.
\<close>

theorem submitStar_failure_leaves_chain:
  "(fst (submitStar SHA256 stringify verify ms ms_add self address message signature star) = Rejected e
      \<longrightarrow> snd (submitStar SHA256 stringify verify ms ms_add self address message signature star) = self
          \<and> (e = Error ''Time elapsed is greater than 5 minutes.'' \<or> e = Error ''Message verification failed.''))
   \<and> (1000 \<le> ms \<and> messageTime message = Some t \<and> 301 \<le> int (ms div 1000) - t
      \<longrightarrow> submitStar SHA256 stringify verify ms ms_add self address message signature star
            = (Rejected (Error ''Time elapsed is greater than 5 minutes.''), self))
   \<and> (verify message address signature = Inr False
      \<longrightarrow> (\<exists>e'. submitStar SHA256 stringify verify ms ms_add self address message signature star
                   = (Rejected e', self)))
   \<and> (\<not> resolved (fst (submitStar SHA256 stringify verify ms ms_add self address message signature star))
      \<longrightarrow> snd (submitStar SHA256 stringify verify ms ms_add self address message signature star) = self)"
proof (intro conjI impI)
  assume r: "fst (submitStar SHA256 stringify verify ms ms_add self address message signature star) = Rejected e"
  then have "\<not> resolved (fst (submitStar SHA256 stringify verify ms ms_add self address message signature star))"
    by simp
  then show "snd (submitStar SHA256 stringify verify ms ms_add self address message signature star) = self"
    by (rule submitStar_not_resolved)
  show "e = Error ''Time elapsed is greater than 5 minutes.'' \<or> e = Error ''Message verification failed.''"
    using r by (rule submitStar_rejected)
next
  assume a: "1000 \<le> ms \<and> messageTime message = Some t \<and> 301 \<le> int (ms div 1000) - t"
  then have "currentTime ms = Some (int (ms div 1000))" by (simp add: currentTime_seconds)
  moreover have "300 < int (ms div 1000) - t" using a by simp
  ultimately show "submitStar SHA256 stringify verify ms ms_add self address message signature star
            = (Rejected (Error ''Time elapsed is greater than 5 minutes.''), self)"
    using a submitStar_expired by blast
next
  assume "verify message address signature = Inr False"
  then show "\<exists>e'. submitStar SHA256 stringify verify ms ms_add self address message signature star
                   = (Rejected e', self)"
    by (simp add: submitStar_def verify_and_add_def Let_def)
next
  assume "\<not> resolved (fst (submitStar SHA256 stringify verify ms ms_add self address message signature star))"
  then show "snd (submitStar SHA256 stringify verify ms ms_add self address message signature star) = self"
    by (rule submitStar_not_resolved)
qed


theorem submitStar_failure_leaves_chain_witness:
  "snd (submitStar (\<lambda>s. s) (\<lambda>block. time block) (\<lambda>m a s. Inr True) 1700000301000 1700000301000
        (new_Blockchain (\<lambda>s. s) (\<lambda>block. time block) 1699999999000)
        ''addr'' ''addr:1700000000:starRegistry'' ''sig'' ''star'')
     = new_Blockchain (\<lambda>s. s) (\<lambda>block. time block) 1699999999000
   \<and> snd (submitStar (\<lambda>s. s) (\<lambda>block. time block) (\<lambda>m a s. Inr False) 1700000100000 1700000100000
        (new_Blockchain (\<lambda>s. s) (\<lambda>block. time block) 1699999999000)
        ''addr'' ''addr:1700000000:starRegistry'' ''sig'' ''star'')
     = new_Blockchain (\<lambda>s. s) (\<lambda>block. time block) 1699999999000"
proof
  let ?new = "new_Blockchain (\<lambda>s. s) (\<lambda>block. time block) 1699999999000"
  let ?late = "submitStar (\<lambda>s. s) (\<lambda>block. time block) (\<lambda>m a s. Inr True) 1700000301000 1700000301000
        ?new ''addr'' ''addr:1700000000:starRegistry'' ''sig'' ''star''"
  let ?forged = "submitStar (\<lambda>s. s) (\<lambda>block. time block) (\<lambda>m a s. Inr False) 1700000100000 1700000100000
        ?new ''addr'' ''addr:1700000000:starRegistry'' ''sig'' ''star''"
  have t: "messageTime ''addr:1700000000:starRegistry'' = Some 1700000000"
    by (simp add: eval_defs)
  have c: "currentTime 1700000301000 = Some 1700000301"
    by (simp add: clock_defs eval_defs)
  have expired: "fst ?late = Rejected (Error ''Time elapsed is greater than 5 minutes.'')"
    by (simp add: submitStar_def t c js_minus_def js_greater_def)
  have "fst ?late = Rejected (Error ''Time elapsed is greater than 5 minutes.'') \<longrightarrow>
          snd ?late = ?new \<and>
          (Error ''Time elapsed is greater than 5 minutes.'' = Error ''Time elapsed is greater than 5 minutes.''
           \<or> Error ''Time elapsed is greater than 5 minutes.'' = Error ''Message verification failed.'')"
    using submitStar_failure_leaves_chain by (rule conjunct1)
  with expired show "snd ?late = ?new" by blast
  note refused = submitStar_failure_leaves_chain
    [where verify = "\<lambda>m a s. Inr False" and message = "''addr:1700000000:starRegistry''"
       and address = "''addr''" and signature = "''sig''" and ?SHA256.0 = "\<lambda>s. s"
       and stringify = "\<lambda>block. time block" and ms = 1700000100000 and ms_add = 1700000100000
       and self = ?new and star = "''star''", THEN conjunct2, THEN conjunct2, THEN conjunct1]
  have "\<exists>e'. ?forged = (Rejected e', ?new)"
    by (rule refused [THEN mp]) simp
  then obtain e' where "?forged = (Rejected e', ?new)" by blast
  then show "snd ?forged = ?new" by simp
qed

section \<open>The chain after any run\<close>

lemma Block_fields:
  "hash (Block data) = None" "body (Block data) = data"
  by (simp_all add: Block_def)

lemma verify_and_add_resolved:
  assumes "fst (verify_and_add SHA256 stringify verify ms_add self address message signature star) = Resolved b"
  shows "snd (verify_and_add SHA256 stringify verify ms_add self address message signature star)
           = self\<lparr>this_chain := this_chain self @ [b], this_height := this_height self + 1\<rparr>
       \<and> hash b = Some (SHA256 (stringify (b\<lparr>hash := None\<rparr>)))
       \<and> body b = Star address message star
       \<and> height b = this_height self + 1
       \<and> time b = time_string ms_add
       \<and> verify message address signature = Inr True"
proof (cases "verify message address signature = Inr True")
  case False
  then show ?thesis using assms by (auto simp: verify_and_add_def split: sum.splits)
next
  case True
  obtain r s where a: "addBlock SHA256 stringify ms_add self (Block (Star address message star)) = (r, s)"
    by (cases "addBlock SHA256 stringify ms_add self (Block (Star address message star))")
  have r: "r = Resolved b"
    using assms True a by (cases r) (simp_all add: verify_and_add_def)
  from addBlock_general [OF a] r
  have "s = self\<lparr>this_chain := this_chain self @ [b], this_height := this_height self + 1\<rparr>"
    and "hash b = Some (SHA256 (stringify (b\<lparr>hash := hash (Block (Star address message star))\<rparr>)))"
    and "body b = body (Block (Star address message star))"
    and "height b = this_height self + 1" and "time b = time_string ms_add"
    by auto
  then show ?thesis
    using True a r by (simp add: verify_and_add_def Block_fields)
qed

lemma submitStar_resolved:
  assumes "fst (submitStar SHA256 stringify verify ms ms_add self address message signature star) = Resolved b"
  shows "snd (submitStar SHA256 stringify verify ms ms_add self address message signature star)
           = self\<lparr>this_chain := this_chain self @ [b], this_height := this_height self + 1\<rparr>
       \<and> hash b = Some (SHA256 (stringify (b\<lparr>hash := None\<rparr>)))
       \<and> body b = Star address message star
       \<and> height b = this_height self + 1
       \<and> time b = time_string ms_add
       \<and> verify message address signature = Inr True"
proof (cases "js_greater (js_minus (currentTime ms) (messageTime message)) (Some (5 * 60))")
  case True
  then show ?thesis using assms by (simp add: submitStar_def)
next
  case False
  then have eq: "submitStar SHA256 stringify verify ms ms_add self address message signature star
               = verify_and_add SHA256 stringify verify ms_add self address message signature star"
    by (simp add: submitStar_def)
  show ?thesis using assms unfolding eq by (rule verify_and_add_resolved)
qed

lemma submitStar_length:
  "length (this_chain (snd (submitStar SHA256 stringify verify ms ms_add self address message signature star)))
     = length (this_chain self)
       + (if resolved (fst (submitStar SHA256 stringify verify ms ms_add self address message signature star))
          then 1 else 0)"
proof (cases "fst (submitStar SHA256 stringify verify ms ms_add self address message signature star)")
  case (Resolved b)
  from submitStar_resolved [OF Resolved] show ?thesis using Resolved by simp
next
  case (Rejected e)
  then have "\<not> resolved (fst (submitStar SHA256 stringify verify ms ms_add self address message signature star))"
    by simp
  from submitStar_not_resolved [OF this] show ?thesis using Rejected by simp
next
  case Pending
  then have "\<not> resolved (fst (submitStar SHA256 stringify verify ms ms_add self address message signature star))"
    by simp
  from submitStar_not_resolved [OF this] show ?thesis using Pending by simp
qed

lemma submit_all_length:
  "length (this_chain (snd (submit_all SHA256 stringify verify self calls)))
     = length (this_chain self) + length (filter resolved (fst (submit_all SHA256 stringify verify self calls)))"
proof (induction calls arbitrary: self)
  case Nil
  show ?case by simp
next
  case (Cons call calls)
  obtain ms ms_add address message signature star
    where call: "call = (ms, ms_add, address, message, signature, star)"
    by (cases call) auto
  show ?case
    unfolding call submit_all_step
    using Cons.IH [of "snd (submitStar SHA256 stringify verify ms ms_add self address message signature star)"]
      submitStar_length [of SHA256 stringify verify ms ms_add self address message signature star]
    by simp
qed

lemma new_Blockchain_genesis:
  "new_Blockchain SHA256 stringify ms0 =
     \<lparr>this_chain =
        [\<lparr>hash = Some (SHA256 (stringify
                    \<lparr>hash = None, height = 0, body = Data ''Genesis Block'',
                     time = time_string ms0, previousBlockHash = None\<rparr>)),
          height = 0, body = Data ''Genesis Block'', time = time_string ms0,
          previousBlockHash = None\<rparr>],
      this_height = 0\<rparr>"
  by (simp add: new_Blockchain_def initializeChain_def addBlock_def Block_def Let_def)

lemma run_length:
  "length (this_chain (snd (run SHA256 stringify verify ms0 calls)))
     = length (filter resolved (fst (run SHA256 stringify verify ms0 calls))) + 1"
proof -
  have "length (this_chain (new_Blockchain SHA256 stringify ms0)) = 1"
    by (simp add: new_Blockchain_genesis)
  then show ?thesis
    unfolding run_def
    by (simp only: submit_all_length [of SHA256 stringify verify "new_Blockchain SHA256 stringify ms0" calls]
        add.commute)
qed

text \<open>
  C9. The bookkeeping of the height is exact. After \<open>new Blockchain()\<close> and any
  calls of \<open>submitStar\<close>, of which \<open>N\<close> resolved (each with one append after the
  genesis block), \<open>getChainHeight\<close> resolves with \<open>N\<close> and the chain holds
  \<open>N + 1\<close> blocks; the cached height is the length of the chain minus one.
\<close>

theorem run_height_bookkeeping:
  "getChainHeight (snd (run SHA256 stringify verify ms0 calls))
     = Resolved (int (length (filter resolved (fst (run SHA256 stringify verify ms0 calls)))))
   \<and> length (this_chain (snd (run SHA256 stringify verify ms0 calls)))
     = length (filter resolved (fst (run SHA256 stringify verify ms0 calls))) + 1
   \<and> this_height (snd (run SHA256 stringify verify ms0 calls))
     = int (length (this_chain (snd (run SHA256 stringify verify ms0 calls)))) - 1"
proof -
  have "linked (snd (run SHA256 stringify verify ms0 calls))" by (rule run_linked)
  then have h: "this_height (snd (run SHA256 stringify verify ms0 calls))
     = int (length (this_chain (snd (run SHA256 stringify verify ms0 calls)))) - 1"
    by (simp add: linked_def)
  show ?thesis
    using h run_length [of SHA256 stringify verify ms0 calls] by (simp add: getChainHeight_def)
qed

text \<open>
  C1. After every successful append the chain is linked: after \<open>new Blockchain()\<close> and
  any calls of \<open>submitStar\<close>, the first block has the link \<open>null\<close> and the height
  0, and every block at an index \<open>i > 0\<close> has as its link the hash of the block at
  \<open>i - 1\<close> and as its height \<open>i\<close>. The step of the induction is
  \<open>addBlock_keeps_linked\<close>: one append keeps a linked object linked.
\<close>

theorem run_chain_linkage:
  "this_chain (snd (run SHA256 stringify verify ms0 calls)) \<noteq> []
   \<and> previousBlockHash (this_chain (snd (run SHA256 stringify verify ms0 calls)) ! 0) = None
   \<and> height (this_chain (snd (run SHA256 stringify verify ms0 calls)) ! 0) = 0
   \<and> (\<forall>i. 0 < i \<and> i < length (this_chain (snd (run SHA256 stringify verify ms0 calls))) \<longrightarrow>
          previousBlockHash (this_chain (snd (run SHA256 stringify verify ms0 calls)) ! i)
            = hash (this_chain (snd (run SHA256 stringify verify ms0 calls)) ! (i - 1))
        \<and> height (this_chain (snd (run SHA256 stringify verify ms0 calls)) ! i) = int i)"
proof -
  let ?chain = "this_chain (snd (run SHA256 stringify verify ms0 calls))"
  have "linked (snd (run SHA256 stringify verify ms0 calls))" by (rule run_linked)
  then have hs: "\<And>i. i < length ?chain \<Longrightarrow> height (?chain ! i) = int i"
    and ls: "\<And>i. i < length ?chain \<Longrightarrow>
               previousBlockHash (?chain ! i) = (if i = 0 then None else hash (?chain ! (i - 1)))"
    by (simp_all add: linked_def)
  have pos: "0 < length ?chain"
    using run_length [of SHA256 stringify verify ms0 calls] by simp
  have "?chain \<noteq> []" using pos by simp
  moreover have "previousBlockHash (?chain ! 0) = None" using ls [OF pos] by simp
  moreover have "height (?chain ! 0) = 0" using hs [OF pos] by simp
  moreover have "\<forall>i. 0 < i \<and> i < length ?chain \<longrightarrow>
          previousBlockHash (?chain ! i) = hash (?chain ! (i - 1)) \<and> height (?chain ! i) = int i"
    using hs ls by simp
  ultimately show ?thesis by blast
qed


lemmas run_defs = run_def new_Blockchain_def initializeChain_def submitStar_def verify_and_add_def
  addBlock_def Block_def js_minus_def js_greater_def Let_def

theorem run_height_bookkeeping_witness:
  "getChainHeight (snd (run (\<lambda>s. s) (\<lambda>block. time block) (\<lambda>m a s. Inr True) 1699999999000
      [(1700000100000, 1700000100500, ''A'', ''A:1700000000:starRegistry'', ''sigA'', ''{}''),
       (1700000900000, 1700000900500, ''B'', ''B:1700000000:starRegistry'', ''sigB'', ''{}'')]))
     = Resolved 1
   \<and> length (this_chain (snd (run (\<lambda>s. s) (\<lambda>block. time block) (\<lambda>m a s. Inr True) 1699999999000
      [(1700000100000, 1700000100500, ''A'', ''A:1700000000:starRegistry'', ''sigA'', ''{}''),
       (1700000900000, 1700000900500, ''B'', ''B:1700000000:starRegistry'', ''sigB'', ''{}'')]))) = 2"
proof -
  let ?run = "run (\<lambda>s. s) (\<lambda>block. time block) (\<lambda>m a s. Inr True) 1699999999000
      [(1700000100000, 1700000100500, ''A'', ''A:1700000000:starRegistry'', ''sigA'', ''{}''),
       (1700000900000, 1700000900500, ''B'', ''B:1700000000:starRegistry'', ''sigB'', ''{}'')]"
  have n: "length (filter resolved (fst ?run)) = 1"
    by (simp add: run_defs eval_defs clock_defs)
  show ?thesis
    using run_height_bookkeeping [of "\<lambda>s. s" "\<lambda>block. time block" "\<lambda>m a s. Inr True" 1699999999000
      "[(1700000100000, 1700000100500, ''A'', ''A:1700000000:starRegistry'', ''sigA'', ''{}''),
        (1700000900000, 1700000900500, ''B'', ''B:1700000000:starRegistry'', ''sigB'', ''{}'')]"]
    unfolding n by simp
qed

theorem run_chain_linkage_witness:
  "previousBlockHash (this_chain (snd (run (\<lambda>s. s) (\<lambda>block. time block) (\<lambda>m a s. Inr True) 1699999999000
      [(1700000100000, 1700000100500, ''A'', ''A:1700000000:starRegistry'', ''sigA'', ''{}'')])) ! 1)
     = hash (this_chain (snd (run (\<lambda>s. s) (\<lambda>block. time block) (\<lambda>m a s. Inr True) 1699999999000
      [(1700000100000, 1700000100500, ''A'', ''A:1700000000:starRegistry'', ''sigA'', ''{}'')])) ! 0)
   \<and> height (this_chain (snd (run (\<lambda>s. s) (\<lambda>block. time block) (\<lambda>m a s. Inr True) 1699999999000
      [(1700000100000, 1700000100500, ''A'', ''A:1700000000:starRegistry'', ''sigA'', ''{}'')])) ! 1) = 1
   \<and> hash (this_chain (snd (run (\<lambda>s. s) (\<lambda>block. time block) (\<lambda>m a s. Inr True) 1699999999000
      [(1700000100000, 1700000100500, ''A'', ''A:1700000000:starRegistry'', ''sigA'', ''{}'')])) ! 0)
     = Some ''1699999999''"
proof -
  let ?chain = "this_chain (snd (run (\<lambda>s. s) (\<lambda>block. time block) (\<lambda>m a s. Inr True) 1699999999000
      [(1700000100000, 1700000100500, ''A'', ''A:1700000000:starRegistry'', ''sigA'', ''{}'')]))"
  have len: "length ?chain = 2"
    by (simp add: run_defs eval_defs clock_defs)
  have h0: "hash (?chain ! 0) = Some ''1699999999''"
    by (simp add: run_defs eval_defs clock_defs)
  have "\<forall>i. 0 < i \<and> i < length ?chain \<longrightarrow>
          previousBlockHash (?chain ! i) = hash (?chain ! (i - 1)) \<and> height (?chain ! i) = int i"
    using run_chain_linkage [of "\<lambda>s. s" "\<lambda>block. time block" "\<lambda>m a s. Inr True" 1699999999000
      "[(1700000100000, 1700000100500, ''A'', ''A:1700000000:starRegistry'', ''sigA'', ''{}'')]"]
    by blast
  then have "0 < (1::nat) \<and> 1 < length ?chain \<longrightarrow>
          previousBlockHash (?chain ! 1) = hash (?chain ! (1 - 1)) \<and> height (?chain ! 1) = int 1"
    by (rule spec)
  then show ?thesis using len h0 by simp
qed

lemma block_without_hash:
  "b\<lparr>hash := None\<rparr>
     = \<lparr>hash = None, height = height b, body = body b, time = time b,
        previousBlockHash = previousBlockHash b\<rparr>"
  by (cases b) simp

lemma submitStar_keeps_hashed:
  assumes "hashed SHA256 stringify self"
  shows "hashed SHA256 stringify
           (snd (submitStar SHA256 stringify verify ms ms_add self address message signature star))"
proof (cases "fst (submitStar SHA256 stringify verify ms ms_add self address message signature star)")
  case (Resolved b)
  from submitStar_resolved [OF Resolved] assms show ?thesis by (simp add: hashed_def)
next
  case (Rejected e)
  then have "\<not> resolved (fst (submitStar SHA256 stringify verify ms ms_add self address message signature star))"
    by simp
  from submitStar_not_resolved [OF this] assms show ?thesis by simp
next
  case Pending
  then have "\<not> resolved (fst (submitStar SHA256 stringify verify ms ms_add self address message signature star))"
    by simp
  from submitStar_not_resolved [OF this] assms show ?thesis by simp
qed

lemma submit_all_keeps_hashed:
  "hashed SHA256 stringify self \<Longrightarrow>
     hashed SHA256 stringify (snd (submit_all SHA256 stringify verify self calls))"
proof (induction calls arbitrary: self)
  case Nil
  then show ?case by simp
next
  case (Cons call calls)
  obtain ms ms_add address message signature star
    where call: "call = (ms, ms_add, address, message, signature, star)"
    by (cases call) auto
  let ?step = "submitStar SHA256 stringify verify ms ms_add self address message signature star"
  have "hashed SHA256 stringify (snd ?step)" using Cons.prems by (rule submitStar_keeps_hashed)
  then have "hashed SHA256 stringify (snd (submit_all SHA256 stringify verify (snd ?step) calls))"
    by (rule Cons.IH)
  then show ?case
    by (simp only: call submit_all_step snd_conv)
qed

lemma run_hashed: "hashed SHA256 stringify (snd (run SHA256 stringify verify ms0 calls))"
  unfolding run_def
proof (rule submit_all_keeps_hashed)
  show "hashed SHA256 stringify (new_Blockchain SHA256 stringify ms0)"
    by (simp add: new_Blockchain_genesis hashed_def)
qed

text \<open>
  C2. The hash stored by the append is the digest of the serialization of the other
  fields of the block. \<open>_addBlock\<close> serializes the block when its body, link, time
  and height are set and before the hash is assigned; for a block fresh from the
  constructor the hash slot is still \<open>null\<close> then, so the stored hash is \<open>SHA256\<close> of
  \<open>stringify\<close> of the block made of the stored height, body, time and link and the
  hash \<open>null\<close>: the stored hash is no part of what is hashed. This holds for the
  block one append stores and for every block of the chain after any run. (For a block
  that came with a hash already set, \<open>addBlock_general\<close> gives what is hashed: the
  old hash stays in the serialization.)
\<close>

theorem addBlock_hash_is_digest:
  "(addBlock SHA256 stringify ms self (Block data) = (Resolved b, self') \<longrightarrow>
      this_chain self' = this_chain self @ [b]
      \<and> hash b = Some (SHA256 (stringify
            \<lparr>hash = None, height = height b, body = body b, time = time b,
             previousBlockHash = previousBlockHash b\<rparr>))
      \<and> body b = data \<and> height b = this_height self + 1 \<and> time b = time_string ms)
   \<and> (\<forall>b' \<in> set (this_chain (snd (run SHA256 stringify verify ms0 calls))).
         hash b' = Some (SHA256 (stringify
            \<lparr>hash = None, height = height b', body = body b', time = time b',
             previousBlockHash = previousBlockHash b'\<rparr>)))"
proof (intro conjI impI)
  assume a: "addBlock SHA256 stringify ms self (Block data) = (Resolved b, self')"
  from addBlock_general [OF a]
  have "this_chain self' = this_chain self @ [b]"
    and h: "hash b = Some (SHA256 (stringify (b\<lparr>hash := None\<rparr>)))"
    and "body b = data" and "height b = this_height self + 1" and "time b = time_string ms"
    by (auto simp: Block_fields)
  then show "this_chain self' = this_chain self @ [b]"
    and "body b = data" and "height b = this_height self + 1" and "time b = time_string ms"
    by simp_all
  show "hash b = Some (SHA256 (stringify
            \<lparr>hash = None, height = height b, body = body b, time = time b,
             previousBlockHash = previousBlockHash b\<rparr>))"
    using h by (simp add: block_without_hash)
next
  show "\<forall>b' \<in> set (this_chain (snd (run SHA256 stringify verify ms0 calls))).
         hash b' = Some (SHA256 (stringify
            \<lparr>hash = None, height = height b', body = body b', time = time b',
             previousBlockHash = previousBlockHash b'\<rparr>))"
    using run_hashed [of SHA256 stringify verify ms0 calls]
    by (simp add: hashed_def list_all_iff block_without_hash)
qed

theorem addBlock_hash_is_digest_witness:
  "hash (this_chain (snd (addBlock (\<lambda>s. ''sha256 of '' @ s) (\<lambda>block. time block) 1700000100500
            (new_Blockchain (\<lambda>s. ''sha256 of '' @ s) (\<lambda>block. time block) 1699999999000)
            (Block (Star ''A'' ''A:1700000000:starRegistry'' ''{}''))))
        ! 1)
     = Some ''sha256 of 1700000100''"
proof -
  let ?sha = "\<lambda>s. ''sha256 of '' @ s"
  let ?new = "new_Blockchain ?sha (\<lambda>block. time block) 1699999999000"
  let ?add = "addBlock ?sha (\<lambda>block. time block) 1700000100500 ?new (Block (Star ''A'' ''A:1700000000:starRegistry'' ''{}''))"
  obtain b self' where a: "?add = (Resolved b, self')"
    by (simp add: run_defs js_index_def)
  have t: "time_string 1700000100500 = ''1700000100''"
    by (simp add: clock_defs)
  have len: "length (this_chain ?new) = 1"
    by (simp add: new_Blockchain_genesis)
  have "this_chain self' = this_chain ?new @ [b] \<and> hash b = Some (?sha (time b))
          \<and> body b = Star ''A'' ''A:1700000000:starRegistry'' ''{}''
          \<and> height b = this_height ?new + 1 \<and> time b = time_string 1700000100500"
    using addBlock_hash_is_digest [of ?sha "\<lambda>block. time block" 1700000100500 ?new
        "Star ''A'' ''A:1700000000:starRegistry'' ''{}''" b self'] a
    by simp
  then show ?thesis
    using a len t by (simp add: nth_append)
qed

section \<open>Validation and queries\<close>

lemma validateChain_loop_eq:
  "i \<le> length chain \<Longrightarrow>
     validateChain_loop validate chain i errorLog
       = errorLog @ concat (map (problems_at validate chain) [i..<length chain])"
proof (induction "length chain - i" arbitrary: i errorLog)
  case 0
  then show ?case by (simp add: validateChain_loop.simps [of validate chain i])
next
  case (Suc n)
  then have lt: "i < length chain" by simp
  have n: "n = length chain - (i + 1)" using Suc.hyps(2) by simp
  have le: "i + 1 \<le> length chain" using lt by simp
  have upt: "[i..<length chain] = i # [i + 1..<length chain]"
    using lt by (simp add: upt_conv_Cons)
  show ?case
    using lt Suc.hyps(1) [OF n le]
    by (simp add: validateChain_loop.simps [of validate chain i] upt problems_at_def Let_def)
qed

lemma toString_inj:
  assumes "toString i = toString k"
  shows "i = k"
proof -
  have "digits_value 10 (toString i) = digits_value 10 (toString k)"
    using assms by (rule arg_cong)
  then show ?thesis by (simp only: digits_value_toString)
qed

lemma problems_at_Nil:
  "problems_at validate chain k = [] \<longleftrightarrow>
     validate (chain ! k) \<and> (0 < k \<longrightarrow> previousBlockHash (chain ! k) = hash (chain ! (k - 1)))"
  by (simp add: problems_at_def)

lemma invalid_block_msg_inj: "invalid_block_msg i = invalid_block_msg k \<Longrightarrow> i = k"
  by (simp add: invalid_block_msg_def toString_inj)

lemma invalid_link_msg_inj: "invalid_link_msg i = invalid_link_msg k \<Longrightarrow> i = k"
  by (simp add: invalid_link_msg_def toString_inj)

lemma msgs_differ: "invalid_block_msg i \<noteq> invalid_link_msg j"
proof
  assume "invalid_block_msg i = invalid_link_msg j"
  then have "rev (invalid_block_msg i) ! 1 = rev (invalid_link_msg j) ! 1" by simp
  then show False by (simp add: invalid_block_msg_def invalid_link_msg_def)
qed

lemma problems_at_block:
  "invalid_block_msg i \<in> set (problems_at validate chain k) \<longleftrightarrow> k = i \<and> \<not> validate (chain ! i)"
  using msgs_differ [of i k] invalid_block_msg_inj [of i k]
  by (auto simp: problems_at_def)

lemma problems_at_link:
  "invalid_link_msg i \<in> set (problems_at validate chain k)
     \<longleftrightarrow> k = i \<and> 0 < i \<and> previousBlockHash (chain ! i) \<noteq> hash (chain ! (i - 1))"
  using msgs_differ [of k i] invalid_link_msg_inj [of i k]
  by (auto simp: problems_at_def)

text \<open>
  C6. \<open>validateChain\<close> looks at every index from 0 to the last and stops at none: it
  resolves with the problems of index 0, then of index 1, and so on, where a block that
  fails \<open>validate\<close> gives one entry and, for an index above 0, a link that is not the
  hash of the block before gives another, different entry, so one index can give both.
  For an index of the chain the entry of the block is in the list exactly when the block
  fails its check, and the entry of the link exactly when the link is wrong. The list is
  empty exactly when every block passes and every link holds. The method writes no
  field of the object: it returns the list and nothing else.
\<close>

theorem validateChain_reports_every_problem:
  "validateChain validate self
     = Resolved (concat (map (problems_at validate (this_chain self)) [0..<length (this_chain self)]))
   \<and> (i < length (this_chain self) \<longrightarrow>
        (invalid_block_msg i \<in> set (concat (map (problems_at validate (this_chain self))
                                               [0..<length (this_chain self)]))
           \<longleftrightarrow> \<not> validate (this_chain self ! i))
      \<and> (invalid_link_msg i \<in> set (concat (map (problems_at validate (this_chain self))
                                               [0..<length (this_chain self)]))
           \<longleftrightarrow> 0 < i \<and> previousBlockHash (this_chain self ! i) \<noteq> hash (this_chain self ! (i - 1))))
   \<and> invalid_block_msg i \<noteq> invalid_link_msg j
   \<and> (validateChain validate self = Resolved [] \<longleftrightarrow>
        (\<forall>k < length (this_chain self).
           validate (this_chain self ! k)
           \<and> (0 < k \<longrightarrow> previousBlockHash (this_chain self ! k) = hash (this_chain self ! (k - 1)))))"
proof -
  let ?chain = "this_chain self"
  let ?all = "concat (map (problems_at validate ?chain) [0..<length ?chain])"
  have eq: "validateChain validate self = Resolved ?all"
    using validateChain_loop_eq [of 0 ?chain validate "[]"] by (simp add: validateChain_def)
  have blk: "invalid_block_msg i \<in> set ?all \<longleftrightarrow> \<not> validate (?chain ! i)" if "i < length ?chain"
    using that by (auto simp: problems_at_block)
  have lnk: "invalid_link_msg i \<in> set ?all
               \<longleftrightarrow> 0 < i \<and> previousBlockHash (?chain ! i) \<noteq> hash (?chain ! (i - 1))"
    if "i < length ?chain"
    using that by (auto simp: problems_at_link)
  have "?all = [] \<longleftrightarrow> (\<forall>k < length ?chain. problems_at validate ?chain k = [])"
    by auto
  also have "\<dots> \<longleftrightarrow> (\<forall>k < length ?chain. validate (?chain ! k)
           \<and> (0 < k \<longrightarrow> previousBlockHash (?chain ! k) = hash (?chain ! (k - 1))))"
    by (simp only: problems_at_Nil)
  finally have empty: "?all = [] \<longleftrightarrow> (\<forall>k < length ?chain. validate (?chain ! k)
           \<and> (0 < k \<longrightarrow> previousBlockHash (?chain ! k) = hash (?chain ! (k - 1))))" .
  show ?thesis
    unfolding eq using blk lnk msgs_differ [of i j] empty by simp
qed


text \<open>A chain whose second block was altered: its hash no longer fits and its link no
  longer points to the first block, and both are reported for height 1.\<close>

theorem validateChain_reports_every_problem_witness:
  "validateChain (\<lambda>block. hash block = Some (time block))
      \<lparr>this_chain =
         [\<lparr>hash = Some ''1699999999'', height = 0, body = Data ''Genesis Block'',
           time = ''1699999999'', previousBlockHash = None\<rparr>,
          \<lparr>hash = Some ''1700000100'', height = 1, body = Star ''A'' ''A:1700000000:starRegistry'' ''{}'',
           time = ''1700000222'', previousBlockHash = Some ''1600000000''\<rparr>],
       this_height = 1\<rparr>
     = Resolved [''Block at height 1 is invalid.'',
                 ''Block at height 1 has an invalid previousBlockHash.'']"
  using validateChain_reports_every_problem [of "\<lambda>block. hash block = Some (time block)"
      "\<lparr>this_chain =
         [\<lparr>hash = Some ''1699999999'', height = 0, body = Data ''Genesis Block'',
           time = ''1699999999'', previousBlockHash = None\<rparr>,
          \<lparr>hash = Some ''1700000100'', height = 1, body = Star ''A'' ''A:1700000000:starRegistry'' ''{}'',
           time = ''1700000222'', previousBlockHash = Some ''1600000000''\<rparr>],
       this_height = 1\<rparr>" 1 1]
  by (simp add: problems_at_def invalid_block_msg_def invalid_link_msg_def toString.simps
      digit_char_def upt_rec [of 0] upt_rec [of 1] upt_rec [of "Suc 0"])

lemma filter_height:
  assumes "\<forall>i < length chain. height (chain ! i) = int i"
  shows "filter (\<lambda>p. height p = k) chain
           = (if 0 \<le> k \<and> k < int (length chain) then [chain ! nat k] else [])"
  using assms
proof (induction chain rule: rev_induct)
  case Nil
  then show ?case by simp
next
  case (snoc x xs)
  have hx: "height x = int (length xs)"
    using snoc.prems by (auto dest: spec [of _ "length xs"])
  have "\<forall>i < length xs. height (xs ! i) = int i"
  proof (intro allI impI)
    fix i assume i: "i < length xs"
    then have "height ((xs @ [x]) ! i) = int i" using snoc.prems by simp
    then show "height (xs ! i) = int i" using i by (simp add: nth_append)
  qed
  then have IH: "filter (\<lambda>p. height p = k) xs
           = (if 0 \<le> k \<and> k < int (length xs) then [xs ! nat k] else [])"
    by (rule snoc.IH)
  show ?case
  proof (cases "k = int (length xs)")
    case True
    then show ?thesis using IH hx by simp
  next
    case False
    then show ?thesis using IH hx by (auto simp: nth_append)
  qed
qed

lemma getBlockByHeight_linked:
  assumes "linked self"
  shows "getBlockByHeight self k
           = Resolved (if 0 \<le> k \<and> k < int (length (this_chain self))
                       then Some (this_chain self ! nat k) else None)"
proof -
  have "\<forall>i < length (this_chain self). height (this_chain self ! i) = int i"
    using assms by (simp add: linked_def)
  from filter_height [OF this, of k] show ?thesis
    by (simp add: getBlockByHeight_def js_index_def)
qed

text \<open>
  C7. The two lookups differ on purpose. \<open>getBlockByHash\<close> resolves with the first
  block of the chain that has the hash and is rejected, with the message of the block not
  found, exactly when no block has it. \<open>getBlockByHeight\<close>, on the chain of any run,
  resolves with the block at the index when the height is an index of the chain and
  resolves with \<open>null\<close>, not a rejection, when it is not.
\<close>

theorem block_lookups_asymmetric:
  "(getBlockByHash self h = Rejected (Error ''Block not found for the given hash.'')
      \<longleftrightarrow> (\<forall>b \<in> set (this_chain self). hash b \<noteq> Some h))
   \<and> (i < length (this_chain self) \<and> hash (this_chain self ! i) = Some h
       \<and> (\<forall>j < i. hash (this_chain self ! j) \<noteq> Some h)
      \<longrightarrow> getBlockByHash self h = Resolved (this_chain self ! i))
   \<and> getBlockByHeight (snd (run SHA256 stringify verify ms0 calls)) k
      = Resolved (if 0 \<le> k \<and> k < int (length (this_chain (snd (run SHA256 stringify verify ms0 calls))))
                  then Some (this_chain (snd (run SHA256 stringify verify ms0 calls)) ! nat k)
                  else None)"
proof (intro conjI impI)
  show "getBlockByHash self h = Rejected (Error ''Block not found for the given hash.'')
      \<longleftrightarrow> (\<forall>b \<in> set (this_chain self). hash b \<noteq> Some h)"
  proof (cases "List.find (\<lambda>block. hash block = Some h) (this_chain self)")
    case None
    then have "\<forall>b \<in> set (this_chain self). hash b \<noteq> Some h"
      unfolding find_None_iff by blast
    then show ?thesis
      using None by (simp add: getBlockByHash_def)
  next
    case (Some b)
    then have "b \<in> set (this_chain self) \<and> hash b = Some h"
      unfolding find_Some_iff by auto
    then show ?thesis
      using Some by (auto simp: getBlockByHash_def)
  qed
next
  assume a: "i < length (this_chain self) \<and> hash (this_chain self ! i) = Some h
       \<and> (\<forall>j < i. hash (this_chain self ! j) \<noteq> Some h)"
  then have "List.find (\<lambda>block. hash block = Some h) (this_chain self) = Some (this_chain self ! i)"
    unfolding find_Some_iff by blast
  then show "getBlockByHash self h = Resolved (this_chain self ! i)"
    by (simp add: getBlockByHash_def)
next
  show "getBlockByHeight (snd (run SHA256 stringify verify ms0 calls)) k
      = Resolved (if 0 \<le> k \<and> k < int (length (this_chain (snd (run SHA256 stringify verify ms0 calls))))
                  then Some (this_chain (snd (run SHA256 stringify verify ms0 calls)) ! nat k)
                  else None)"
    using run_linked by (rule getBlockByHeight_linked)
qed


lemma example_run_chain:
  "this_chain (snd (run (\<lambda>s. s) (\<lambda>block. time block) (\<lambda>m a s. Inr True) 1699999999000
      [(1700000100000, 1700000100500, ''A'', ''A:1700000000:starRegistry'', ''sigA'', ''Vega'')]))
   = [\<lparr>hash = Some ''1699999999'', height = 0, body = Data ''Genesis Block'',
       time = ''1699999999'', previousBlockHash = None\<rparr>,
      \<lparr>hash = Some ''1700000100'', height = 1, body = Star ''A'' ''A:1700000000:starRegistry'' ''Vega'',
       time = ''1700000100'', previousBlockHash = Some ''1699999999''\<rparr>]"
  by (simp add: run_defs eval_defs clock_defs)

theorem block_lookups_asymmetric_witness:
  "getBlockByHash (snd (run (\<lambda>s. s) (\<lambda>block. time block) (\<lambda>m a s. Inr True) 1699999999000
      [(1700000100000, 1700000100500, ''A'', ''A:1700000000:starRegistry'', ''sigA'', ''Vega'')])) ''1700000100''
     = Resolved \<lparr>hash = Some ''1700000100'', height = 1, body = Star ''A'' ''A:1700000000:starRegistry'' ''Vega'',
                 time = ''1700000100'', previousBlockHash = Some ''1699999999''\<rparr>
   \<and> getBlockByHash (snd (run (\<lambda>s. s) (\<lambda>block. time block) (\<lambda>m a s. Inr True) 1699999999000
      [(1700000100000, 1700000100500, ''A'', ''A:1700000000:starRegistry'', ''sigA'', ''Vega'')])) ''0000''
     = Rejected (Error ''Block not found for the given hash.'')
   \<and> getBlockByHeight (snd (run (\<lambda>s. s) (\<lambda>block. time block) (\<lambda>m a s. Inr True) 1699999999000
      [(1700000100000, 1700000100500, ''A'', ''A:1700000000:starRegistry'', ''sigA'', ''Vega'')])) 0
     = Resolved (Some \<lparr>hash = Some ''1699999999'', height = 0, body = Data ''Genesis Block'',
                       time = ''1699999999'', previousBlockHash = None\<rparr>)
   \<and> getBlockByHeight (snd (run (\<lambda>s. s) (\<lambda>block. time block) (\<lambda>m a s. Inr True) 1699999999000
      [(1700000100000, 1700000100500, ''A'', ''A:1700000000:starRegistry'', ''sigA'', ''Vega'')])) 2
     = Resolved None"
proof -
  let ?self = "snd (run (\<lambda>s. s) (\<lambda>block. time block) (\<lambda>m a s. Inr True) 1699999999000
      [(1700000100000, 1700000100500, ''A'', ''A:1700000000:starRegistry'', ''sigA'', ''Vega'')])"
  note chain = example_run_chain
  have found: "getBlockByHash ?self ''1700000100'' = Resolved (this_chain ?self ! 1)"
    using block_lookups_asymmetric [where self = ?self and h = "''1700000100''" and i = 1]
    by (simp add: chain)
  have missing: "getBlockByHash ?self ''0000'' = Rejected (Error ''Block not found for the given hash.'')"
    using block_lookups_asymmetric [where self = ?self and h = "''0000''"]
    by (simp add: chain)
  have at0: "getBlockByHeight ?self 0 = Resolved (Some (this_chain ?self ! 0))"
    using block_lookups_asymmetric [where ?SHA256.0 = "\<lambda>s. s" and stringify = "\<lambda>block. time block"
        and verify = "\<lambda>m a s. Inr True" and ?ms0.0 = 1699999999000
        and calls = "[(1700000100000, 1700000100500, ''A'', ''A:1700000000:starRegistry'', ''sigA'', ''Vega'')]"
        and k = 0]
    by (simp add: chain)
  have at2: "getBlockByHeight ?self 2 = Resolved None"
    using block_lookups_asymmetric [where ?SHA256.0 = "\<lambda>s. s" and stringify = "\<lambda>block. time block"
        and verify = "\<lambda>m a s. Inr True" and ?ms0.0 = 1699999999000
        and calls = "[(1700000100000, 1700000100500, ''A'', ''A:1700000000:starRegistry'', ''sigA'', ''Vega'')]"
        and k = 2]
    by (simp add: chain)
  show ?thesis
    using found missing at0 at2 by (simp add: chain)
qed

lemma getStars_loop_eq:
  "getStars_loop JSON_parse address chain stars
     = (case decode_all JSON_parse (claimed_stars address chain) of
          Inl e \<Rightarrow> Inl e
        | Inr vs \<Rightarrow> Inr (stars @ vs))"
proof (induction chain arbitrary: stars)
  case Nil
  show ?case by (simp add: claimed_stars_def)
next
  case (Cons block rest)
  show ?case
  proof (cases "body block")
    case (Data d)
    then show ?thesis using Cons.IH [of stars] by (simp add: claimed_stars_def)
  next
    case (Star a m s)
    show ?thesis
    proof (cases "a = address")
      case False
      then show ?thesis using Star Cons.IH [of stars] by (simp add: claimed_stars_def)
    next
      case True
      show ?thesis
      proof (cases "JSON_parse s")
        case (Inl e)
        then show ?thesis using Star True by (simp add: claimed_stars_def)
      next
        case (Inr v)
        then show ?thesis
          using Star True Cons.IH [of "stars @ [v]"]
          by (simp add: claimed_stars_def split: sum.splits)
      qed
    qed
  qed
qed

lemma decode_all_ok:
  "(\<forall>s \<in> set ss. \<exists>v. JSON_parse s = Inr v) \<Longrightarrow>
     decode_all JSON_parse ss = Inr (map (\<lambda>s. projr (JSON_parse s)) ss)"
  by (induction ss) auto

lemma decode_all_fails:
  "(\<exists>s \<in> set ss. \<exists>e. JSON_parse s = Inl e) \<Longrightarrow> \<exists>e. decode_all JSON_parse ss = Inl e"
proof (induction ss)
  case Nil
  then show ?case by simp
next
  case (Cons s ss)
  show ?case
  proof (cases "JSON_parse s")
    case (Inl e)
    then show ?thesis by simp
  next
    case (Inr v)
    then have "\<exists>s \<in> set ss. \<exists>e. JSON_parse s = Inl e" using Cons.prems by auto
    then obtain e where "decode_all JSON_parse ss = Inl e" using Cons.IH by blast
    then show ?thesis using Inr by simp
  qed
qed

text \<open>
  C8 says that \<open>getStarsByWalletAddress\<close> never fails. The source decodes every star
  with \<open>JSON.parse\<close> inside a \<open>try\<close> and rejects with what it throws. Here the
  address \<open>A\<close> registered the star \<open>Vega\<close>, which is no JSON text, and the call for
  \<open>A\<close> is rejected with the \<open>SyntaxError\<close>.
\<close>

theorem getStars_counterexample:
  "getStarsByWalletAddress (JSON_parse_text Inr)
      (snd (run (\<lambda>s. s) (\<lambda>block. time block) (\<lambda>m a s. Inr True) 1699999999000
         [(1700000100000, 1700000100500, ''A'', ''A:1700000000:starRegistry'', ''sigA'', ''Vega'')]))
      ''A''
     = (Rejected SyntaxError :: string list promise)"
  by (simp add: getStarsByWalletAddress_def example_run_chain JSON_parse_text_def)

text \<open>
  C8, as the source has it. \<open>getStarsByWalletAddress\<close> decodes, in chain order, the
  stars of exactly the blocks whose body has the address, and skips the blocks without an
  address. When every one of them decodes it resolves with the decoded stars in that
  order; when one does not it is rejected with the error of the first that fails; for an
  address with no block it resolves with the empty list.
\<close>

theorem getStars_decoded_in_order:
  "getStarsByWalletAddress JSON_parse self address
     = (case decode_all JSON_parse (claimed_stars address (this_chain self)) of
          Inl e \<Rightarrow> Rejected e
        | Inr stars \<Rightarrow> Resolved stars)
   \<and> ((\<forall>s \<in> set (claimed_stars address (this_chain self)). \<exists>v. JSON_parse s = Inr v) \<longrightarrow>
        getStarsByWalletAddress JSON_parse self address
          = Resolved (map (\<lambda>s. projr (JSON_parse s)) (claimed_stars address (this_chain self))))
   \<and> ((\<exists>s \<in> set (claimed_stars address (this_chain self)). \<exists>e. JSON_parse s = Inl e) \<longrightarrow>
        (\<exists>e. getStarsByWalletAddress JSON_parse self address = Rejected e))
   \<and> (claimed_stars address (this_chain self) = [] \<longrightarrow>
        getStarsByWalletAddress JSON_parse self address = Resolved [])"
proof -
  have eq: "getStarsByWalletAddress JSON_parse self address
     = (case decode_all JSON_parse (claimed_stars address (this_chain self)) of
          Inl e \<Rightarrow> Rejected e
        | Inr stars \<Rightarrow> Resolved stars)"
    by (simp add: getStarsByWalletAddress_def getStars_loop_eq split: sum.splits)
  have ok: "getStarsByWalletAddress JSON_parse self address
          = Resolved (map (\<lambda>s. projr (JSON_parse s)) (claimed_stars address (this_chain self)))"
    if "\<forall>s \<in> set (claimed_stars address (this_chain self)). \<exists>v. JSON_parse s = Inr v"
    using decode_all_ok [OF that] by (simp add: eq)
  have bad: "\<exists>e. getStarsByWalletAddress JSON_parse self address = Rejected e"
    if "\<exists>s \<in> set (claimed_stars address (this_chain self)). \<exists>e. JSON_parse s = Inl e"
    using decode_all_fails [OF that] by (auto simp: eq)
  have none: "getStarsByWalletAddress JSON_parse self address = Resolved []"
    if "claimed_stars address (this_chain self) = []"
    using that by (simp add: eq)
  show ?thesis using eq ok bad none by blast
qed


theorem getStars_decoded_in_order_witness:
  "getStarsByWalletAddress (JSON_parse_text Inr)
      \<lparr>this_chain =
         [\<lparr>hash = Some ''h0'', height = 0, body = Data ''Genesis Block'',
           time = ''1699999999'', previousBlockHash = None\<rparr>,
          \<lparr>hash = Some ''h1'', height = 1, body = Star ''A'' ''A:1700000000:starRegistry'' ''[1]'',
           time = ''1700000100'', previousBlockHash = Some ''h0''\<rparr>,
          \<lparr>hash = Some ''h2'', height = 2, body = Star ''B'' ''B:1700000000:starRegistry'' ''[2]'',
           time = ''1700000200'', previousBlockHash = Some ''h1''\<rparr>,
          \<lparr>hash = Some ''h3'', height = 3, body = Star ''A'' ''A:1700000000:starRegistry'' ''[3]'',
           time = ''1700000300'', previousBlockHash = Some ''h2''\<rparr>],
       this_height = 3\<rparr>
      ''A''
     = Resolved [''[1]'', ''[3]'']"
  using getStars_decoded_in_order [of "JSON_parse_text Inr"
      "\<lparr>this_chain =
         [\<lparr>hash = Some ''h0'', height = 0, body = Data ''Genesis Block'',
           time = ''1699999999'', previousBlockHash = None\<rparr>,
          \<lparr>hash = Some ''h1'', height = 1, body = Star ''A'' ''A:1700000000:starRegistry'' ''[1]'',
           time = ''1700000100'', previousBlockHash = Some ''h0''\<rparr>,
          \<lparr>hash = Some ''h2'', height = 2, body = Star ''B'' ''B:1700000000:starRegistry'' ''[2]'',
           time = ''1700000200'', previousBlockHash = Some ''h1''\<rparr>,
          \<lparr>hash = Some ''h3'', height = 3, body = Star ''A'' ''A:1700000000:starRegistry'' ''[3]'',
           time = ''1700000300'', previousBlockHash = Some ''h2''\<rparr>],
       this_height = 3\<rparr>" "''A''"]
  by (simp add: claimed_stars_def JSON_parse_text_def)

section \<open>Further properties\<close>

text \<open>
  A challenge issued by \<open>requestMessageOwnershipVerification\<close> for an address with no
  colon, submitted on the chain of any run while the clock in seconds is at most 300
  ahead of the issue and with a signature the verifier accepts, resolves with a new block
  that holds the address, the message and the star, pushed at the end of the chain.
\<close>

theorem issued_challenge_accepted:
  assumes "CHR '':'' \<notin> set address" and "1000 \<le> ms0" and "ms0 \<le> ms"
    and "requestMessageOwnershipVerification ms0 address = Resolved message"
    and "int (ms div 1000) - int (ms0 div 1000) \<le> 300"
    and "verify message address signature = Inr True"
  shows "\<exists>b. submitStar SHA256 stringify verify ms ms_add
               (snd (run SHA256 stringify verify ms_new calls)) address message signature star
             = (Resolved b,
                (snd (run SHA256 stringify verify ms_new calls))
                  \<lparr>this_chain := this_chain (snd (run SHA256 stringify verify ms_new calls)) @ [b],
                   this_height := this_height (snd (run SHA256 stringify verify ms_new calls)) + 1\<rparr>)
           \<and> body b = Star address message star"
proof -
  let ?self = "snd (run SHA256 stringify verify ms_new calls)"
  have t: "messageTime message = Some (int (ms0 div 1000))"
    using assms(1,2,4) by (rule messageTime_issued)
  have "1000 \<le> ms" using assms(2,3) by simp
  then have c: "currentTime ms = Some (int (ms div 1000))" by (rule currentTime_seconds)
  have eq: "submitStar SHA256 stringify verify ms ms_add ?self address message signature star
              = verify_and_add SHA256 stringify verify ms_add ?self address message signature star"
    using c t assms(5) by (rule submitStar_fresh)
  have "linked ?self" by (rule run_linked)
  from addBlock_linked [OF this, of SHA256 stringify ms_add "Block (Star address message star)"]
  obtain b where a: "addBlock SHA256 stringify ms_add ?self (Block (Star address message star))
             = (Resolved b, ?self\<lparr>this_chain := this_chain ?self @ [b], this_height := this_height ?self + 1\<rparr>)"
    and b: "body b = body (Block (Star address message star))"
    by auto
  show ?thesis
    unfolding eq using a b assms(6) by (simp add: verify_and_add_def Block_fields)
qed

theorem issued_challenge_accepted_witness:
  "\<exists>b. submitStar (\<lambda>s. s) (\<lambda>block. time block) (\<lambda>m a s. Inr True) 1700000300999 1700000301500
         (snd (run (\<lambda>s. s) (\<lambda>block. time block) (\<lambda>m a s. Inr True) 1699999999000 []))
         ''A'' ''A:1700000000:starRegistry'' ''sigA'' ''[1]''
       = (Resolved b,
          (snd (run (\<lambda>s. s) (\<lambda>block. time block) (\<lambda>m a s. Inr True) 1699999999000 []))
            \<lparr>this_chain := this_chain (snd (run (\<lambda>s. s) (\<lambda>block. time block) (\<lambda>m a s. Inr True) 1699999999000 [])) @ [b],
             this_height := this_height (snd (run (\<lambda>s. s) (\<lambda>block. time block) (\<lambda>m a s. Inr True) 1699999999000 [])) + 1\<rparr>)
     \<and> body b = Star ''A'' ''A:1700000000:starRegistry'' ''[1]''"
proof -
  have a: "CHR '':'' \<notin> set ''A''" by simp
  have b: "(1000::nat) \<le> 1700000000123" and c: "(1700000000123::nat) \<le> 1700000300999" by simp_all
  have d: "requestMessageOwnershipVerification 1700000000123 ''A'' = Resolved ''A:1700000000:starRegistry''"
    by (simp add: requestMessageOwnershipVerification_def clock_defs)
  have e: "int (1700000300999 div 1000) - int (1700000000123 div 1000) \<le> 300" by simp
  have f: "(\<lambda>m a s. Inr True) ''A:1700000000:starRegistry'' ''A'' ''sigA'' = (Inr True :: js_error + bool)"
    by simp
  show ?thesis
    using a b c d e f by (rule issued_challenge_accepted)
qed

lemma problems_at_run:
  assumes "k < length (this_chain (snd (run SHA256 stringify verify ms0 calls)))"
  shows "problems_at (Block_validate SHA256 stringify)
           (this_chain (snd (run SHA256 stringify verify ms0 calls))) k = []"
proof -
  let ?chain = "this_chain (snd (run SHA256 stringify verify ms0 calls))"
  have "hashed SHA256 stringify (snd (run SHA256 stringify verify ms0 calls))" by (rule run_hashed)
  then have v: "Block_validate SHA256 stringify (?chain ! k)"
    using assms by (simp add: hashed_def list_all_length Block_validate_def)
  have "linked (snd (run SHA256 stringify verify ms0 calls))" by (rule run_linked)
  then have "previousBlockHash (?chain ! k) = (if k = 0 then None else hash (?chain ! (k - 1)))"
    using assms by (simp add: linked_def)
  then show ?thesis using v by (simp add: problems_at_Nil)
qed

text \<open>
  On the chain of any run \<open>validateChain\<close> resolves with no problem, when the check of
  a block is the one the spec describes (\<open>Block_validate\<close>).
\<close>

theorem validateChain_intact_run:
  "validateChain (Block_validate SHA256 stringify) (snd (run SHA256 stringify verify ms0 calls))
     = Resolved []"
proof -
  let ?chain = "this_chain (snd (run SHA256 stringify verify ms0 calls))"
  have "concat (map (problems_at (Block_validate SHA256 stringify) ?chain) [0..<length ?chain]) = []"
    using problems_at_run [of _ SHA256 stringify verify ms0 calls] by simp
  then show ?thesis
    using validateChain_loop_eq [of 0 ?chain "Block_validate SHA256 stringify" "[]"]
    by (simp add: validateChain_def)
qed

theorem validateChain_intact_run_witness:
  "validateChain (Block_validate (\<lambda>s. s) (\<lambda>block. time block))
     \<lparr>this_chain =
        [\<lparr>hash = Some ''1699999999'', height = 0, body = Data ''Genesis Block'',
          time = ''1699999999'', previousBlockHash = None\<rparr>,
         \<lparr>hash = Some ''1700000100'', height = 1, body = Star ''A'' ''A:1700000000:starRegistry'' ''Vega'',
          time = ''1700000100'', previousBlockHash = Some ''1699999999''\<rparr>],
      this_height = 1\<rparr>
     = Resolved []"
proof -
  let ?run = "run (\<lambda>s. s) (\<lambda>block. time block) (\<lambda>m a s. Inr True) 1699999999000
      [(1700000100000, 1700000100500, ''A'', ''A:1700000000:starRegistry'', ''sigA'', ''Vega'')]"
  have s: "snd ?run =
     \<lparr>this_chain =
        [\<lparr>hash = Some ''1699999999'', height = 0, body = Data ''Genesis Block'',
          time = ''1699999999'', previousBlockHash = None\<rparr>,
         \<lparr>hash = Some ''1700000100'', height = 1, body = Star ''A'' ''A:1700000000:starRegistry'' ''Vega'',
          time = ''1700000100'', previousBlockHash = Some ''1699999999''\<rparr>],
      this_height = 1\<rparr>"
    by (simp add: run_defs eval_defs clock_defs)
  show ?thesis
    using validateChain_intact_run [of "\<lambda>s. s" "\<lambda>block. time block" "\<lambda>m a s. Inr True" 1699999999000
      "[(1700000100000, 1700000100500, ''A'', ''A:1700000000:starRegistry'', ''sigA'', ''Vega'')]"]
    unfolding s .
qed

text \<open>
  When \<open>bitcoinMessage.verify\<close> throws, a call that passed the freshness check is
  neither resolved nor rejected, and in every case the object is returned as it was.
\<close>

theorem submitStar_verifier_throws:
  assumes "verify message address signature = Inl thrown"
  shows "(submitStar SHA256 stringify verify ms ms_add self address message signature star = (Pending, self)
          \<or> submitStar SHA256 stringify verify ms ms_add self address message signature star
              = (Rejected (Error ''Time elapsed is greater than 5 minutes.''), self))
       \<and> (\<not> js_greater (js_minus (currentTime ms) (messageTime message)) (Some 300) \<longrightarrow>
            submitStar SHA256 stringify verify ms ms_add self address message signature star = (Pending, self))"
  using assms by (simp add: submitStar_def verify_and_add_def Let_def)

theorem submitStar_verifier_throws_witness:
  "submitStar (\<lambda>s. s) (\<lambda>block. time block) (\<lambda>m a s. Inl (Error ''Invalid signature length''))
       1700000100000 1700000100500 \<lparr>this_chain = [], this_height = - 1\<rparr>
       ''addr'' ''addr:1700000000:starRegistry'' ''sig'' ''star''
     = (Pending, \<lparr>this_chain = [], this_height = - 1\<rparr>)"
proof -
  have t: "messageTime ''addr:1700000000:starRegistry'' = Some 1700000000"
    by (simp add: eval_defs)
  have c: "currentTime 1700000100000 = Some 1700000100"
    by (simp add: clock_defs eval_defs)
  have fresh: "\<not> js_greater (js_minus (currentTime 1700000100000)
                   (messageTime ''addr:1700000000:starRegistry'')) (Some 300)"
    by (simp add: t c js_minus_def js_greater_def)
  note inst = submitStar_verifier_throws
    [where verify = "\<lambda>m a s. Inl (Error ''Invalid signature length'')"
       and message = "''addr:1700000000:starRegistry''" and address = "''addr''"
       and signature = "''sig''" and thrown = "Error ''Invalid signature length''"
       and ms = 1700000100000]
  show ?thesis
    by (rule inst [THEN conjunct2, THEN mp]) (simp, rule fresh)
qed

end
